theory Spec2Isabelle
  imports Main "HOL-Library.Char_ord" "HOL-Library.List_Lexorder"
begin

section \<open>Values exchanged with the collaborators\<close>

text \<open>
  The handler of \<^verbatim>\<open>handler.go\<close> drives a \<^verbatim>\<open>Session\<close>, a \<^verbatim>\<open>FileSystem\<close> and an
  \<^verbatim>\<open>Authorizer\<close>. A Go \<^verbatim>\<open>error\<close> is classified by the handler in three ways only:
  identity with \<^verbatim>\<open>errNoDataConn\<close>, \<^verbatim>\<open>os.IsPermission\<close> and \<^verbatim>\<open>os.IsNotExist\<close>. The
  datatype keeps these classes apart and carries the text of \<^verbatim>\<open>Error()\<close>. A value of
  type \<open>error option\<close> is a Go \<^verbatim>\<open>error\<close> that may be \<^verbatim>\<open>nil\<close>.
\<close>

datatype error =
    errNoDataConn
  | EOF
  | Permission string
  | NotExist string
  | Other string

fun Error :: "error \<Rightarrow> string" where
  "Error errNoDataConn = ''no data channel connection''"
| "Error EOF = ''EOF''"
| "Error (Permission m) = m"
| "Error (NotExist m) = m"
| "Error (Other m) = m"

text \<open>\<^verbatim>\<open>isPermission\<close> and \<^verbatim>\<open>isNotExist\<close>; both are false on \<^verbatim>\<open>nil\<close>.\<close>

fun isPermission :: "error option \<Rightarrow> bool" where
  "isPermission (Some (Permission m)) = True"
| "isPermission _ = False"

fun isNotExist :: "error option \<Rightarrow> bool" where
  "isNotExist (Some (NotExist m)) = True"
| "isNotExist _ = False"

text \<open>
  The modification time of a file, as the civil date and time that \<^verbatim>\<open>Time.Format\<close>
  prints, and the part of \<^verbatim>\<open>os.FileInfo\<close> the handler reads.
\<close>

record civil =
  Year :: int
  Month :: nat
  Day :: nat
  Hour :: nat
  Minute :: nat
  Second :: nat

record FileInfo =
  IsDir :: bool
  Size :: int
  ModTime :: civil

text \<open>An established data channel: what \<^verbatim>\<open>HostPort()\<close> and \<^verbatim>\<open>Port()\<close> answer.\<close>

record data =
  HostPort :: string
  Port :: int

record Command =
  Cmd :: string
  Msg :: string

text \<open>
  Every call the handler makes on a collaborator is written to a log kept beside the
  session, in call order. A file handle is named by the path it was opened with.
\<close>

datatype event =
    EvReply nat string
  | EvAuthorize string string
  | EvSetType string
  | EvSetMode string
  | EvStat string
  | EvMkdir string
  | EvRemove string
  | EvRename string string
  | EvOpen string
  | EvCreate string
  | EvSeek string int
  | EvCopyToData string
  | EvCopyFromData string
  | EvReaddir string
  | EvListWrite string string
  | EvFileClose string
  | EvCloseData
  | EvPassive string
  | EvActive string
  | EvPrintln string

text \<open>
  The session state: the fields of \<^verbatim>\<open>fileSession\<close> (\<open>authed\<close>, \<open>renaming\<close>,
  \<open>epsvOnly\<close>, \<open>restart\<close>) and the fields of the embedded \<^verbatim>\<open>Session\<close> that the
  handler reads or writes. \<open>Data = None\<close> is \<^verbatim>\<open>s.Data == nil\<close>; \<open>TLS\<close> tells whether
  \<^verbatim>\<open>s.TLS\<close> is non-nil. \<open>restart\<close> is an \<^verbatim>\<open>int64\<close>; the handler never does
  arithmetic on it, and the only value stored comes from \<open>ParseInt\<close> below, which
  keeps it in range.
\<close>

record fileSession =
  User :: string
  Password :: string
  Dir :: string
  Data :: "data option"
  TLS :: bool
  authed :: bool
  renaming :: string
  epsvOnly :: bool
  restart :: int
  log :: "event list"

text \<open>
  What the collaborators answer while one command is handled. These are the methods of
  \<^verbatim>\<open>Session\<close>, \<^verbatim>\<open>FileSystem\<close>, \<^verbatim>\<open>File\<close>, \<^verbatim>\<open>Authorizer\<close> and \<^verbatim>\<open>Lister\<close>, and the
  parsers \<^verbatim>\<open>ParsePORT\<close> and \<^verbatim>\<open>ParseEPRT\<close>, none of which is defined in
  \<^verbatim>\<open>handler.go\<close>; they are parameters of the model. \<open>Authorizer = None\<close> is a nil
  \<^verbatim>\<open>Authorizer\<close>; \<open>Server_TLS\<close> tells whether \<^verbatim>\<open>s.Server.TLS\<close> is non-nil.
\<close>

record env =
  Reply_ret :: "nat \<Rightarrow> string \<Rightarrow> error option"
  Authorizer :: "(string \<Rightarrow> string \<Rightarrow> bool \<times> error option) option"
  Server_TLS :: bool
  Addr_Network :: string
  Path_ret :: "string \<Rightarrow> string \<Rightarrow> string"
  SetType_ret :: "string \<Rightarrow> error option"
  SetMode_ret :: "string \<Rightarrow> error option"
  Stat_ret :: "string \<Rightarrow> error + FileInfo"
  Mkdir_ret :: "string \<Rightarrow> error option"
  Remove_ret :: "string \<Rightarrow> error option"
  Rename_ret :: "string \<Rightarrow> string \<Rightarrow> error option"
  Open_ret :: "string \<Rightarrow> error option"
  Create_ret :: "string \<Rightarrow> error option"
  Seek_ret :: "string \<Rightarrow> int \<Rightarrow> error option"
  CopyToData_ret :: "string \<Rightarrow> error option"
  CopyFromData_ret :: "string \<Rightarrow> error option"
  Readdir_ret :: "string \<Rightarrow> error + FileInfo list"
  ListWrite_ret :: "string \<Rightarrow> string \<Rightarrow> error option"
  FileClose_ret :: "string \<Rightarrow> error option"
  CloseData_ret :: "error option"
  Passive_ret :: "string \<Rightarrow> error + data"
  Active_ret :: "string \<Rightarrow> error + data"
  ParsePORT :: "string \<Rightarrow> error + string"
  ParseEPRT :: "string \<Rightarrow> error + string"
  listLines :: "FileInfo list \<Rightarrow> string list"

type_synonym 'a result = "'a \<times> fileSession"

definition emit :: "event \<Rightarrow> fileSession \<Rightarrow> fileSession" where
  "emit ev s = s\<lparr>log := log s @ [ev]\<rparr>"

section \<open>Library functions the handler calls\<close>

text \<open>
  \<^verbatim>\<open>strings.ToUpper\<close> on the bytes of an ASCII string. The handler only compares
  its result with the words \<open>ALL\<close> and \<open>UTF8 ON\<close>, and a string with a byte outside
  ASCII is mapped to neither of them, in Go as here.
\<close>

definition upper_char :: "char \<Rightarrow> char" where
  "upper_char ch =
     (if CHR ''a'' \<le> ch \<and> ch \<le> CHR ''z'' then char_of (of_char ch - (32::nat)) else ch)"

definition ToUpper :: "string \<Rightarrow> string" where
  "ToUpper s = map upper_char s"

text \<open>\<^verbatim>\<open>strings.Join\<close>.\<close>

fun Join :: "string list \<Rightarrow> string \<Rightarrow> string" where
  "Join [] sep = ''''"
| "Join [x] sep = x"
| "Join (x # y # ys) sep = x @ sep @ Join (y # ys) sep"

text \<open>\<^verbatim>\<open>strings.Split\<close> with a one-byte separator.\<close>

fun Split :: "string \<Rightarrow> char \<Rightarrow> string list" where
  "Split [] sep = [[]]"
| "Split (ch # cs) sep =
     (if ch = sep then [] # Split cs sep
      else (case Split cs sep of [] \<Rightarrow> [[ch]] | w # ws \<Rightarrow> (ch # w) # ws))"

definition HasPrefix :: "string \<Rightarrow> string \<Rightarrow> bool" where
  "HasPrefix s p = (take (length p) s = p)"

text \<open>Decimal digits, \<^verbatim>\<open>strconv.FormatInt(n, 10)\<close> and the \<^verbatim>\<open>%d\<close> verb.\<close>

definition digit_char :: "nat \<Rightarrow> char" where
  "digit_char d = char_of (48 + d)"

fun digits :: "nat \<Rightarrow> string" where
  "digits n = (if n < 10 then [digit_char n] else digits (n div 10) @ [digit_char (n mod 10)])"

declare digits.simps [simp del]

definition FormatInt :: "int \<Rightarrow> string" where
  "FormatInt n = (if n < 0 then CHR ''-'' # digits (nat (- n)) else digits (nat n))"

text \<open>
  \<^verbatim>\<open>strconv.ParseInt(s, 10, 64)\<close>: an optional sign, then one or more decimal digits,
  and a value that fits an \<^verbatim>\<open>int64\<close>. \<open>None\<close> is a non-nil error (syntax or range).
\<close>

definition is_digit :: "char \<Rightarrow> bool" where
  "is_digit ch = (CHR ''0'' \<le> ch \<and> ch \<le> CHR ''9'')"

definition digit_val :: "char \<Rightarrow> int" where
  "digit_val ch = of_char ch - 48"

definition decimal_val :: "string \<Rightarrow> int" where
  "decimal_val ds = foldl (\<lambda>acc ch. 10 * acc + digit_val ch) 0 ds"

definition ParseInt :: "string \<Rightarrow> int option" where
  "ParseInt s =
     (let neg = (s \<noteq> [] \<and> hd s = CHR ''-'');
          ds = (if s \<noteq> [] \<and> (hd s = CHR ''+'' \<or> hd s = CHR ''-'') then tl s else s)
      in if ds = [] \<or> \<not> list_all is_digit ds then None
         else if neg then
           (if decimal_val ds > 2 ^ 63 then None else Some (- decimal_val ds))
         else
           (if decimal_val ds \<ge> 2 ^ 63 then None else Some (decimal_val ds)))"

text \<open>
  \<^verbatim>\<open>Time.Format(mdtmFormat)\<close> with \<^verbatim>\<open>mdtmFormat = "20060102150405"\<close>: the year
  zero-padded to four digits (with a sign when negative), then month, day, hour,
  minute and second, each zero-padded to two digits.
\<close>

definition pad :: "nat \<Rightarrow> nat \<Rightarrow> string" where
  "pad w n = replicate (w - length (digits n)) CHR ''0'' @ digits n"

definition mdtmFormat :: "civil \<Rightarrow> string" where
  "mdtmFormat t =
     (if Year t < 0 then CHR ''-'' # pad 4 (nat (- Year t)) else pad 4 (nat (Year t)))
     @ pad 2 (Month t) @ pad 2 (Day t) @ pad 2 (Hour t) @ pad 2 (Minute t) @ pad 2 (Second t)"

text \<open>\<^verbatim>\<open>quote\<close>: a quoted string with double-escaped quotes.\<close>

definition quote :: "string \<Rightarrow> string" where
  "quote s = CHR 0x22 # concat (map (\<lambda>ch. if ch = CHR 0x22 then [CHR 0x22, CHR 0x22] else [ch]) s)
     @ [CHR 0x22]"

text \<open>
  \<^verbatim>\<open>stripListFlags\<close>: the first loop returns the argument as it is when its first
  character other than a space is not a hyphen; otherwise the words that start with a
  hyphen are dropped.
\<close>

fun starts_plain :: "string \<Rightarrow> bool" where
  "starts_plain [] = False"
| "starts_plain (ch # cs) =
     (if ch = CHR ''-'' then False else if ch \<noteq> CHR '' '' then True else starts_plain cs)"

definition stripListFlags :: "string \<Rightarrow> string" where
  "stripListFlags s =
     (if starts_plain s then s
      else Join (filter (\<lambda>w. \<not> HasPrefix w ''-'') (Split s CHR '' '')) '' '')"

section \<open>The primitive calls\<close>

text \<open>
  Each call answers what the environment says and writes itself to the log.
  \<^verbatim>\<open>Reply(code, format, args...)\<close> is logged with the formatted text.
\<close>

definition Reply :: "env \<Rightarrow> nat \<Rightarrow> string \<Rightarrow> fileSession \<Rightarrow> error option result" where
  "Reply e code msg s = (Reply_ret e code msg, emit (EvReply code msg) s)"

definition Path :: "env \<Rightarrow> fileSession \<Rightarrow> string \<Rightarrow> string" where
  "Path e s p = Path_ret e (Dir s) p"

definition Stat :: "env \<Rightarrow> string \<Rightarrow> fileSession \<Rightarrow> (error + FileInfo) result" where
  "Stat e p s = (Stat_ret e p, emit (EvStat p) s)"

definition Open :: "env \<Rightarrow> string \<Rightarrow> fileSession \<Rightarrow> error option result" where
  "Open e p s = (Open_ret e p, emit (EvOpen p) s)"

definition Create :: "env \<Rightarrow> string \<Rightarrow> fileSession \<Rightarrow> error option result" where
  "Create e p s = (Create_ret e p, emit (EvCreate p) s)"

definition Seek :: "env \<Rightarrow> string \<Rightarrow> int \<Rightarrow> fileSession \<Rightarrow> error option result" where
  "Seek e p n s = (Seek_ret e p n, emit (EvSeek p n) s)"

definition FileClose :: "env \<Rightarrow> string \<Rightarrow> fileSession \<Rightarrow> error option result" where
  "FileClose e p s = (FileClose_ret e p, emit (EvFileClose p) s)"

text \<open>
  Modelled from the spec: \<^verbatim>\<open>Session.CloseData\<close>, \<^verbatim>\<open>Session.Passive\<close> and
  \<^verbatim>\<open>Session.Active\<close> are not in \<^verbatim>\<open>handler.go\<close>. By the spec a data channel is
  consumed by one transfer and closed after it, and a new negotiation supersedes the
  channel before it: closing leaves no channel, a successful negotiation installs the
  new channel (returned here as \<open>Inr d\<close>, the value of \<^verbatim>\<open>s.Data\<close> after a nil
  error), a failed one leaves none.
\<close>

definition CloseData :: "env \<Rightarrow> fileSession \<Rightarrow> error option result" where
  "CloseData e s = (CloseData_ret e, emit EvCloseData (s\<lparr>Data := None\<rparr>))"

definition Passive :: "env \<Rightarrow> string \<Rightarrow> fileSession \<Rightarrow> (error + data) result" where
  "Passive e nw s =
     (case Passive_ret e nw of
        Inl err \<Rightarrow> (Inl err, emit (EvPassive nw) (s\<lparr>Data := None\<rparr>))
      | Inr d \<Rightarrow> (Inr d, emit (EvPassive nw) (s\<lparr>Data := Some d\<rparr>)))"

definition Active :: "env \<Rightarrow> string \<Rightarrow> fileSession \<Rightarrow> (error + data) result" where
  "Active e addr s =
     (case Active_ret e addr of
        Inl err \<Rightarrow> (Inl err, emit (EvActive addr) (s\<lparr>Data := None\<rparr>))
      | Inr d \<Rightarrow> (Inr d, emit (EvActive addr) (s\<lparr>Data := Some d\<rparr>)))"

section \<open>Pre-authentication commands\<close>

text \<open>\<^verbatim>\<open>features\<close>: the supported features, sorted as \<^verbatim>\<open>sort.Strings\<close> does.\<close>

definition features :: "env \<Rightarrow> string list" where
  "features e =
     sort ([''EPRT'', ''EPSV'', ''MDTM'', ''PASV'', ''REST STREAM'', ''SIZE'', ''UTF8'']
           @ (if Server_TLS e then [''PBSZ'', ''PROT''] else []))"

text \<open>The tail of the \<^verbatim>\<open>PASS\<close> case, after the \<^verbatim>\<open>Authorizer\<close> has accepted or is nil.\<close>

definition login :: "env \<Rightarrow> Command \<Rightarrow> fileSession \<Rightarrow> error option result" where
  "login e c s = Reply e 230 ''Login successful.'' (s\<lparr>Password := Msg c, authed := True\<rparr>)"

definition handlePreAuth :: "env \<Rightarrow> Command \<Rightarrow> fileSession \<Rightarrow> error option result" where
  "handlePreAuth e c s =
     (if Cmd c = ''USER'' then
        (if authed s then Reply e 530 ''Cannot change user.'' s
         else if Msg c = '''' then Reply e 504 ''A user name is required.'' s
         else Reply e 331 ''Please specify the password.'' (s\<lparr>User := Msg c\<rparr>))
      else if Cmd c = ''PASS'' then
        (if authed s then Reply e 230 ''Already logged in.'' s
         else if User s = '''' then Reply e 503 ''Log in with USER first.'' s
         else (case Authorizer e of
                 None \<Rightarrow> login e c s
               | Some authorize \<Rightarrow>
                   (case authorize (User s) (Msg c) of
                      (ok, Some err) \<Rightarrow>
                        (Some err, (emit (EvAuthorize (User s) (Msg c)) s)\<lparr>User := ''''\<rparr>)
                    | (ok, None) \<Rightarrow>
                        if \<not> ok then
                          Reply e 430 ''Invalid user name or password.''
                            ((emit (EvAuthorize (User s) (Msg c)) s)\<lparr>User := ''''\<rparr>)
                        else login e c (emit (EvAuthorize (User s) (Msg c)) s))))
      else if Cmd c = ''FEAT'' then
        Reply e 211 (Join ([''Extensions supported:''] @ features e @ [''End.'']) [CHR 0x0A]) s
      else if Cmd c = ''QUIT'' then Reply e 211 ''Goodbye.'' s
      else if \<not> authed s then Reply e 530 ''Log in with USER and PASS.'' s
      else Reply e 502 ''Not implemented.'' s)"

section \<open>Transfers\<close>

text \<open>
  The cleanup the transfer handlers repeat on an error after the file was opened: close
  the file, close the data channel, return the error in hand.
\<close>

definition abort_transfer :: "env \<Rightarrow> string \<Rightarrow> error \<Rightarrow> fileSession \<Rightarrow> error option result" where
  "abort_transfer e p err s = (Some err, snd (CloseData e (snd (FileClose e p s))))"

text \<open>\<^verbatim>\<open>if s.restart > 0 { file.Seek(s.restart, io.SeekStart) }\<close>\<close>

definition seek_restart :: "env \<Rightarrow> string \<Rightarrow> fileSession \<Rightarrow> error option result" where
  "seek_restart e p s = (if restart s > 0 then Seek e p (restart s) s else (None, s))"

text \<open>\<^verbatim>\<open>io.Copy(s.Data, file)\<close> and \<^verbatim>\<open>io.Copy(file, s.Data)\<close>.\<close>

definition CopyToData :: "env \<Rightarrow> string \<Rightarrow> fileSession \<Rightarrow> error option result" where
  "CopyToData e p s = (CopyToData_ret e p, emit (EvCopyToData p) s)"

definition CopyFromData :: "env \<Rightarrow> string \<Rightarrow> fileSession \<Rightarrow> error option result" where
  "CopyFromData e p s = (CopyFromData_ret e p, emit (EvCopyFromData p) s)"

text \<open>\<^verbatim>\<open>Lister{File: file, Cmd: c.Cmd}.WriteTo(s.Data)\<close>.\<close>

definition ListWrite :: "env \<Rightarrow> string \<Rightarrow> string \<Rightarrow> fileSession \<Rightarrow> error option result" where
  "ListWrite e cmd p s = (ListWrite_ret e cmd p, emit (EvListWrite cmd p) s)"

definition retrieve :: "env \<Rightarrow> Command \<Rightarrow> fileSession \<Rightarrow> error option result" where
  "retrieve e c s =
     (if Data s = None then (Some errNoDataConn, s)
      else let p = Path e s (Msg c) in
        case Open e p s of
          (Some err, s1) \<Rightarrow> (Some err, snd (CloseData e s1))
        | (None, s1) \<Rightarrow>
        case Reply e 150 ''Here comes the file.'' s1 of
          (Some err, s2) \<Rightarrow> abort_transfer e p err s2
        | (None, s2) \<Rightarrow>
        case seek_restart e p s2 of
          (Some err, s3) \<Rightarrow> abort_transfer e p err s3
        | (None, s3) \<Rightarrow>
        case CopyToData e p s3 of
          (Some err, s4) \<Rightarrow> abort_transfer e p err s4
        | (None, s4) \<Rightarrow> CloseData e (snd (FileClose e p s4)))"

definition store :: "env \<Rightarrow> Command \<Rightarrow> fileSession \<Rightarrow> error option result" where
  "store e c s =
     (if Data s = None then (Some errNoDataConn, s)
      else let p = Path e s (Msg c) in
        case Create e p s of
          (Some err, s1) \<Rightarrow> (Some err, snd (CloseData e s1))
        | (None, s1) \<Rightarrow>
        case Reply e 150 ''Awaiting file data.'' s1 of
          (Some err, s2) \<Rightarrow> abort_transfer e p err s2
        | (None, s2) \<Rightarrow>
        case seek_restart e p s2 of
          (Some err, s3) \<Rightarrow> abort_transfer e p err s3
        | (None, s3) \<Rightarrow>
        case CopyFromData e p s3 of
          (Some err, s4) \<Rightarrow> abort_transfer e p err s4
        | (None, s4) \<Rightarrow>
            (case FileClose e p s4 of (err, s5) \<Rightarrow> (err, snd (CloseData e s5))))"

text \<open>\<^verbatim>\<open>list\<close>, the handler for LIST and NLST.\<close>

definition list_cmd :: "env \<Rightarrow> Command \<Rightarrow> fileSession \<Rightarrow> error option result" where
  "list_cmd e c s =
     (if Data s = None then (Some errNoDataConn, s)
      else let p = Path e s (stripListFlags (Msg c)) in
        case Open e p s of
          (Some err, s1) \<Rightarrow> (Some err, snd (CloseData e s1))
        | (None, s1) \<Rightarrow>
        case Reply e 150 ''Here comes the list.'' s1 of
          (Some err, s2) \<Rightarrow> abort_transfer e p err s2
        | (None, s2) \<Rightarrow>
        case ListWrite e (Cmd c) p s2 of
          (Some err, s3) \<Rightarrow> abort_transfer e p err s3
        | (None, s3) \<Rightarrow> CloseData e (snd (FileClose e p s3)))"

text \<open>\<^verbatim>\<open>stat\<close>, the handler for STAT with an argument.\<close>

definition stat :: "env \<Rightarrow> string \<Rightarrow> fileSession \<Rightarrow> (error + FileInfo list) result" where
  "stat e p s =
     (case Stat e p s of
        (Inl err, s1) \<Rightarrow> (Inl err, s1)
      | (Inr st, s1) \<Rightarrow>
          if \<not> IsDir st then (Inr [st], s1)
          else (case Open e p s1 of
                  (Some err, s2) \<Rightarrow> (Inl err, s2)
                | (None, s2) \<Rightarrow>
                    (case Readdir_ret e p of
                       Inl err \<Rightarrow> (Inl err, snd (FileClose e p (emit (EvReaddir p) s2)))
                     | Inr l \<Rightarrow> (Inr l, snd (FileClose e p (emit (EvReaddir p) s2))))))"

section \<open>Post-authentication commands\<close>

text \<open>
  The cases of the \<^verbatim>\<open>switch\<close> in \<^verbatim>\<open>handlePostAuth\<close>, one definition for each case
  body, named after its verb, and then the \<^verbatim>\<open>switch\<close> itself.
\<close>

definition err_of :: "error + 'a \<Rightarrow> error option" where
  "err_of r = (case r of Inl err \<Rightarrow> Some err | Inr v \<Rightarrow> None)"

definition handle_TYPE :: "env \<Rightarrow> Command \<Rightarrow> fileSession \<Rightarrow> error option result" where
  "handle_TYPE e c s =
     (case SetType_ret e (Msg c) of
        Some err \<Rightarrow> Reply e 504 (Error err) (emit (EvSetType (Msg c)) s)
      | None \<Rightarrow> Reply e 200 ''Type switched successfully.'' (emit (EvSetType (Msg c)) s))"

definition handle_MODE :: "env \<Rightarrow> Command \<Rightarrow> fileSession \<Rightarrow> error option result" where
  "handle_MODE e c s =
     (case SetMode_ret e (Msg c) of
        Some err \<Rightarrow> Reply e 504 (Error err) (emit (EvSetMode (Msg c)) s)
      | None \<Rightarrow> Reply e 200 ''Mode switched successfully.'' (emit (EvSetMode (Msg c)) s))"

definition handle_PWD :: "env \<Rightarrow> Command \<Rightarrow> fileSession \<Rightarrow> error option result" where
  "handle_PWD e c s = Reply e 257 (quote (Path e s '''') @ '' is the current directory.'') s"

text \<open>The body shared, word for word, by the CWD and CDUP cases once the path is known.\<close>

definition change_dir :: "env \<Rightarrow> string \<Rightarrow> fileSession \<Rightarrow> error option result" where
  "change_dir e p s =
     (case Stat e p s of (r, s1) \<Rightarrow>
        if isPermission (err_of r) then Reply e 550 ''Insufficient permissions.'' s1
        else if isNotExist (err_of r) then Reply e 550 ''No such directory.'' s1
        else (case r of
                Inl err \<Rightarrow> Reply e 550 ''Failed to change directory.'' s1
              | Inr st \<Rightarrow>
                  if \<not> IsDir st then Reply e 550 ''Failed to change directory.'' s1
                  else Reply e 250 ''Directory successfully changed.'' (s1\<lparr>Dir := p\<rparr>)))"

definition handle_CWD :: "env \<Rightarrow> Command \<Rightarrow> fileSession \<Rightarrow> error option result" where
  "handle_CWD e c s =
     (if Msg c = '''' then Reply e 550 ''Failed to change directory.'' s
      else change_dir e (Path e s (Msg c)) s)"

definition handle_CDUP :: "env \<Rightarrow> Command \<Rightarrow> fileSession \<Rightarrow> error option result" where
  "handle_CDUP e c s = change_dir e (Path e s ''..'') s"

definition handle_MKD :: "env \<Rightarrow> Command \<Rightarrow> fileSession \<Rightarrow> error option result" where
  "handle_MKD e c s =
     (let p = Path e s (Msg c) in
      case Mkdir_ret e p of
        Some err \<Rightarrow> Reply e 550 ''Failed to create directory.'' (emit (EvMkdir p) s)
      | None \<Rightarrow> Reply e 257 (quote p @ '' created.'') (emit (EvMkdir p) s))"

definition handle_SIZE :: "env \<Rightarrow> Command \<Rightarrow> fileSession \<Rightarrow> error option result" where
  "handle_SIZE e c s =
     (case Stat e (Path e s (Msg c)) s of (r, s1) \<Rightarrow>
        if isPermission (err_of r) then Reply e 550 ''Insufficient permissions.'' s1
        else if isNotExist (err_of r) then Reply e 550 ''No such file.'' s1
        else (case r of
                Inl err \<Rightarrow> Reply e 550 ''Could not get size.'' s1
              | Inr st \<Rightarrow>
                  if IsDir st then Reply e 550 ''Path specifies a directory.'' s1
                  else Reply e 213 (FormatInt (Size st)) s1))"

definition handle_MDTM :: "env \<Rightarrow> Command \<Rightarrow> fileSession \<Rightarrow> error option result" where
  "handle_MDTM e c s =
     (case Stat e (Path e s (Msg c)) s of (r, s1) \<Rightarrow>
        if isPermission (err_of r) then Reply e 550 ''Insufficient permissions.'' s1
        else if isNotExist (err_of r) then Reply e 550 ''No such file or directory.'' s1
        else (case r of
                Inl err \<Rightarrow> Reply e 550 ''Could not get size.'' s1
              | Inr st \<Rightarrow>
                  if IsDir st then Reply e 550 ''Could not get size.'' s1
                  else Reply e 213 (mdtmFormat (ModTime st)) s1))"

text \<open>The case \<^verbatim>\<open>"DELE", "RMD"\<close>.\<close>

definition handle_DELE :: "env \<Rightarrow> Command \<Rightarrow> fileSession \<Rightarrow> error option result" where
  "handle_DELE e c s =
     (if Msg c = '''' then Reply e 501 ''A file name is required.'' s
      else let p = Path e s (Msg c); err = Remove_ret e p; s1 = emit (EvRemove p) s in
        if isPermission err then Reply e 550 ''Insufficient permissions.'' s1
        else if isNotExist err then Reply e 550 ''No such file.'' s1
        else if err \<noteq> None then Reply e 550 ''Could not delete file.'' s1
        else Reply e 250 ''Successfully deleted file.'' s1)"

definition handle_RNFR :: "env \<Rightarrow> Command \<Rightarrow> fileSession \<Rightarrow> error option result" where
  "handle_RNFR e c s =
     (if Msg c = '''' then Reply e 501 ''A file name is required.'' s
      else Reply e 350 ''Call RNTO to specify destination.'' (s\<lparr>renaming := Path e s (Msg c)\<rparr>))"

definition handle_RNTO :: "env \<Rightarrow> Command \<Rightarrow> fileSession \<Rightarrow> error option result" where
  "handle_RNTO e c s =
     (if Msg c = '''' then Reply e 501 ''A file name is required.'' s
      else if renaming s = '''' then Reply e 503 ''Call RNFR first.'' s
      else let old = renaming s; new = Path e s (Msg c);
               err = Rename_ret e old new; s1 = emit (EvRename old new) s in
        if isPermission err then Reply e 550 ''Insufficient permissions.'' s1
        else if isNotExist err then Reply e 550 ''No such file.'' s1
        else if err \<noteq> None then Reply e 550 ''Could not rename file.'' s1
        else Reply e 250 ''Successfully renamed file.'' s1)"

definition handle_PASV :: "env \<Rightarrow> Command \<Rightarrow> fileSession \<Rightarrow> error option result" where
  "handle_PASV e c s =
     (if epsvOnly s then Reply e 550 ''PASV is disallowed.'' s
      else case Passive e ''tcp4'' s of
        (Inl err, s1) \<Rightarrow>
          Reply e 425 ''Can't open data connection.'' (emit (EvPrintln (Error err)) s1)
      | (Inr d, s1) \<Rightarrow> Reply e 227 (''Entering Passive Mode ('' @ HostPort d @ '').'') s1)"

text \<open>The end of the EPSV case, once the network \<open>nw\<close> is chosen.\<close>

definition epsv_passive :: "env \<Rightarrow> string \<Rightarrow> fileSession \<Rightarrow> error option result" where
  "epsv_passive e nw s =
     (case Passive e nw s of
        (Inl err, s1) \<Rightarrow> Reply e 425 ''Can't open data connection.'' s1
      | (Inr d, s1) \<Rightarrow>
          Reply e 229 (''Entering Extended Passive Mode (|||'' @ FormatInt (Port d) @ ''|)'') s1)"

definition handle_EPSV :: "env \<Rightarrow> Command \<Rightarrow> fileSession \<Rightarrow> error option result" where
  "handle_EPSV e c s =
     (if ToUpper (Msg c) = ''ALL'' then Reply e 200 ''EPSV ALL ok.'' (s\<lparr>epsvOnly := True\<rparr>)
      else if Msg c = ''1'' then epsv_passive e ''tcp4'' s
      else if Msg c = ''2'' then epsv_passive e ''tcp6'' s
      else if Msg c = '''' then epsv_passive e (Addr_Network e) s
      else Reply e 522 ''Unsupported protocol.'' s)"

text \<open>The end of the PORT and EPRT cases, once the address is parsed.\<close>

definition connect_active :: "env \<Rightarrow> error + string \<Rightarrow> fileSession \<Rightarrow> error option result" where
  "connect_active e parsed s =
     (case parsed of
        Inl err \<Rightarrow> Reply e 501 ''Invalid syntax.'' s
      | Inr addr \<Rightarrow>
          (case Active e addr s of
             (Inl err, s1) \<Rightarrow> Reply e 550 ''Failed to connect.'' s1
           | (Inr d, s1) \<Rightarrow> Reply e 200 ''OK'' s1))"

definition handle_PORT :: "env \<Rightarrow> Command \<Rightarrow> fileSession \<Rightarrow> error option result" where
  "handle_PORT e c s =
     (if epsvOnly s then Reply e 550 ''PORT is disallowed.'' s
      else connect_active e (ParsePORT e (Msg c)) s)"

definition handle_EPRT :: "env \<Rightarrow> Command \<Rightarrow> fileSession \<Rightarrow> error option result" where
  "handle_EPRT e c s =
     (if epsvOnly s then Reply e 550 ''EPRT is disallowed.'' s
      else connect_active e (ParseEPRT e (Msg c)) s)"

definition handle_REST :: "env \<Rightarrow> Command \<Rightarrow> fileSession \<Rightarrow> error option result" where
  "handle_REST e c s =
     (case ParseInt (Msg c) of
        None \<Rightarrow> Reply e 501 ''Invalid syntax.'' s
      | Some n \<Rightarrow>
          if n < 0 then Reply e 501 ''Invalid syntax.'' s
          else Reply e 350 (''Restart position accepted ('' @ FormatInt n @ '').'')
                 (s\<lparr>restart := n\<rparr>))"

definition handle_STAT :: "env \<Rightarrow> Command \<Rightarrow> fileSession \<Rightarrow> error option result" where
  "handle_STAT e c s =
     (if Msg c = '''' then Reply e 211 ''Looks good to me.'' s
      else case stat e (Msg c) s of (r, s1) \<Rightarrow>
        if isPermission (err_of r) then Reply e 550 ''Insufficient permissions.'' s1
        else if isNotExist (err_of r) then Reply e 550 ''No such file or directory.'' s1
        else (case r of
                Inl err \<Rightarrow> Reply e 550 ''Error retrieving status.'' s1
              | Inr l \<Rightarrow>
                  Reply e 213 (Join ([''Status:''] @ listLines e l @ [''End.'']) [CHR 0x0A]) s1))"

text \<open>The case \<^verbatim>\<open>"LIST", "NLST"\<close>.\<close>

definition handle_LIST :: "env \<Rightarrow> Command \<Rightarrow> fileSession \<Rightarrow> error option result" where
  "handle_LIST e c s =
     (case list_cmd e c s of (err, s1) \<Rightarrow>
        if err = Some errNoDataConn then Reply e 425 ''Use PORT or PASV first.'' s1
        else if isPermission err then Reply e 550 ''Insufficient permissions.'' s1
        else if isNotExist err then Reply e 550 ''No such directory.'' s1
        else if err \<noteq> None then Reply e 550 ''Error listing directory.'' s1
        else Reply e 226 ''Directory send OK.'' s1)"

definition handle_RETR :: "env \<Rightarrow> Command \<Rightarrow> fileSession \<Rightarrow> error option result" where
  "handle_RETR e c s =
     (case retrieve e c s of (err, s1) \<Rightarrow>
        if err = Some errNoDataConn then Reply e 425 ''Use PORT or PASV first.'' s1
        else if isPermission err then Reply e 550 ''Insufficient permissions.'' s1
        else if isNotExist err then Reply e 550 ''No such file.'' s1
        else if err \<noteq> None then Reply e 550 ''Error retrieving file.'' s1
        else Reply e 226 ''Transfer complete.'' s1)"

definition handle_STOR :: "env \<Rightarrow> Command \<Rightarrow> fileSession \<Rightarrow> error option result" where
  "handle_STOR e c s =
     (case store e c s of (err, s1) \<Rightarrow>
        if err = Some errNoDataConn then Reply e 425 ''Use PORT or PASV first.'' s1
        else if isPermission err then Reply e 550 ''Insufficient permissions.'' s1
        else if err \<noteq> None then Reply e 550 ''Error storing file.'' s1
        else Reply e 226 ''Transfer complete.'' s1)"

definition handle_PBSZ :: "env \<Rightarrow> Command \<Rightarrow> fileSession \<Rightarrow> error option result" where
  "handle_PBSZ e c s =
     (if \<not> Server_TLS e then Reply e 502 ''Not implemented.'' s
      else if Msg c = ''0'' then Reply e 200 ''OK.'' s
      else Reply e 534 ''Unacceptable buffer size. PBSZ=0'' s)"

definition handle_PROT :: "env \<Rightarrow> Command \<Rightarrow> fileSession \<Rightarrow> error option result" where
  "handle_PROT e c s =
     (if \<not> Server_TLS e then Reply e 502 ''Not implemented.'' s
      else if Msg c = ''P'' then Reply e 200 ''Protection level changed.'' (s\<lparr>TLS := True\<rparr>)
      else if Msg c = ''C'' then Reply e 200 ''Protection level changed.'' (s\<lparr>TLS := False\<rparr>)
      else Reply e 504 ''Unsupported protection level.'' s)"

definition handle_OPTS :: "env \<Rightarrow> Command \<Rightarrow> fileSession \<Rightarrow> error option result" where
  "handle_OPTS e c s =
     (if ToUpper (Msg c) = ''UTF8 ON'' then Reply e 200 ''Always in UTF8 mode.'' s
      else Reply e 501 ''Option not understood.'' s)"

definition help_text :: string where
  "help_text = Join
     [''The following commands are recognized.'',
      ''CDUP CWD  DELE EPRT EPSV FEAT HELP LIST MDTM MKD  MODE NLST NOOP OPTS'',
      ''PASS PASV PBSZ PORT PROT PWD  QUIT REST RETR RMD  RNFR RNTO SIZE STAT'',
      ''STOR SYST TYPE USER'',
      ''Help OK.''] [CHR 0x0A]"

definition handlePostAuth :: "env \<Rightarrow> Command \<Rightarrow> fileSession \<Rightarrow> error option result" where
  "handlePostAuth e c s =
     (if Cmd c = ''SYST'' then Reply e 215 ''UNIX Type: L8'' s
      else if Cmd c = ''TYPE'' then handle_TYPE e c s
      else if Cmd c = ''MODE'' then handle_MODE e c s
      else if Cmd c = ''PWD'' then handle_PWD e c s
      else if Cmd c = ''CWD'' then handle_CWD e c s
      else if Cmd c = ''CDUP'' then handle_CDUP e c s
      else if Cmd c = ''MKD'' then handle_MKD e c s
      else if Cmd c = ''SIZE'' then handle_SIZE e c s
      else if Cmd c = ''MDTM'' then handle_MDTM e c s
      else if Cmd c = ''DELE'' \<or> Cmd c = ''RMD'' then handle_DELE e c s
      else if Cmd c = ''RNFR'' then handle_RNFR e c s
      else if Cmd c = ''RNTO'' then handle_RNTO e c s
      else if Cmd c = ''PASV'' then handle_PASV e c s
      else if Cmd c = ''EPSV'' then handle_EPSV e c s
      else if Cmd c = ''PORT'' then handle_PORT e c s
      else if Cmd c = ''EPRT'' then handle_EPRT e c s
      else if Cmd c = ''REST'' then handle_REST e c s
      else if Cmd c = ''STAT'' then handle_STAT e c s
      else if Cmd c = ''LIST'' \<or> Cmd c = ''NLST'' then handle_LIST e c s
      else if Cmd c = ''RETR'' then handle_RETR e c s
      else if Cmd c = ''STOR'' then handle_STOR e c s
      else if Cmd c = ''PBSZ'' then handle_PBSZ e c s
      else if Cmd c = ''PROT'' then handle_PROT e c s
      else if Cmd c = ''OPTS'' then handle_OPTS e c s
      else if Cmd c = ''HELP'' then Reply e 214 help_text s
      else if Cmd c = ''NOOP'' then Reply e 200 ''OK.'' s
      else handlePreAuth e c s)"

section \<open>The session loop\<close>

definition handle :: "env \<Rightarrow> Command \<Rightarrow> fileSession \<Rightarrow> error option result" where
  "handle e c s = (if \<not> authed s then handlePreAuth e c s else handlePostAuth e c s)"

text \<open>The end of one turn of the loop in \<^verbatim>\<open>Handle\<close>: the two resets.\<close>

definition reset_transient :: "Command \<Rightarrow> fileSession \<Rightarrow> fileSession" where
  "reset_transient c s =
     (let s1 = (if Cmd c \<noteq> ''RNFR'' then s\<lparr>renaming := ''''\<rparr> else s)
      in if Cmd c \<noteq> ''REST'' then s1\<lparr>restart := 0\<rparr> else s1)"

text \<open>
  \<^verbatim>\<open>fileSession.Handle\<close>. The commands the client sends are a list, each with what the
  collaborators answer while it is handled; when the list is used up \<^verbatim>\<open>s.Command()\<close>
  fails with \<open>rd\<close> (the connection is closed). The loop leaves only with an error, so
  the result is an error and the final state.
\<close>

fun Handle :: "error \<Rightarrow> (env \<times> Command) list \<Rightarrow> fileSession \<Rightarrow> error \<times> fileSession" where
  "Handle rd [] s = (rd, s)"
| "Handle rd ((e, c) # rest) s =
     (case handle e c s of
        (Some err, s1) \<Rightarrow> (err, s1)
      | (None, s1) \<Rightarrow>
          if Cmd c = ''QUIT'' then (EOF, s1)
          else Handle rd rest (reset_transient c s1))"

text \<open>The session \<^verbatim>\<open>FileHandler.Handle\<close> starts from: every field has its zero value.\<close>

definition new_session :: fileSession where
  "new_session = \<lparr>User = '''', Password = '''', Dir = '''', Data = None, TLS = False,
     authed = False, renaming = '''', epsvOnly = False, restart = 0, log = []\<rparr>"

section \<open>Observations on a session\<close>

text \<open>
  The state at the head of the loop of \<^verbatim>\<open>Handle\<close> after the given commands, when the
  loop is still running; \<open>None\<close> when one of them ended the session (an error from the
  handler, or QUIT).
\<close>

fun run :: "(env \<times> Command) list \<Rightarrow> fileSession \<Rightarrow> fileSession option" where
  "run [] s = Some s"
| "run ((e, c) # rest) s =
     (case handle e c s of
        (Some err, s1) \<Rightarrow> None
      | (None, s1) \<Rightarrow>
          if Cmd c = ''QUIT'' then None else run rest (reset_transient c s1))"

text \<open>The calls logged since the state \<open>s\<close>, read in a later state \<open>s'\<close>.\<close>

definition since :: "fileSession \<Rightarrow> fileSession \<Rightarrow> event list" where
  "since s s' = drop (length (log s)) (log s')"

text \<open>The status codes of the replies among some logged calls.\<close>

fun reply_codes :: "event list \<Rightarrow> nat list" where
  "reply_codes [] = []"
| "reply_codes (EvReply code m # evs) = code # reply_codes evs"
| "reply_codes (ev # evs) = reply_codes evs"

text \<open>The first error of a row of calls made one after the other.\<close>

fun first_error :: "error option list \<Rightarrow> error option" where
  "first_error [] = None"
| "first_error (Some err # rs) = Some err"
| "first_error (None # rs) = first_error rs"

text \<open>The answer of the seek a transfer makes: none is made unless the offset is positive.\<close>

definition seek_answer :: "env \<Rightarrow> string \<Rightarrow> fileSession \<Rightarrow> error option" where
  "seek_answer e p s = (if restart s > 0 then Seek_ret e p (restart s) else None)"

text \<open>
  The filesystem call a command makes first, as the event it logs, and what the
  filesystem answers to it; the path each command resolves.
\<close>

definition target :: "env \<Rightarrow> Command \<Rightarrow> fileSession \<Rightarrow> string" where
  "target e c s =
     (if Cmd c = ''CDUP'' then Path e s ''..''
      else if Cmd c = ''LIST'' \<or> Cmd c = ''NLST'' then Path e s (stripListFlags (Msg c))
      else Path e s (Msg c))"

definition fs_answer :: "env \<Rightarrow> Command \<Rightarrow> fileSession \<Rightarrow> error option" where
  "fs_answer e c s =
     (if Cmd c \<in> {''CWD'', ''CDUP'', ''SIZE'', ''MDTM''} then err_of (Stat_ret e (target e c s))
      else if Cmd c = ''MKD'' then Mkdir_ret e (target e c s)
      else if Cmd c \<in> {''DELE'', ''RMD''} then Remove_ret e (target e c s)
      else if Cmd c = ''RNTO'' then Rename_ret e (renaming s) (target e c s)
      else if Cmd c \<in> {''RETR'', ''LIST'', ''NLST''} then Open_ret e (target e c s)
      else if Cmd c = ''STOR'' then Create_ret e (target e c s)
      else None)"

text \<open>
  The checks a command makes before it calls the filesystem: a non-empty argument for
  CWD, DELE, RMD and RNTO, a pending rename for RNTO, a data channel for the transfers.
\<close>

definition reaches_fs :: "Command \<Rightarrow> fileSession \<Rightarrow> bool" where
  "reaches_fs c s =
     (if Cmd c \<in> {''CWD'', ''DELE'', ''RMD''} then Msg c \<noteq> ''''
      else if Cmd c = ''RNTO'' then Msg c \<noteq> '''' \<and> renaming s \<noteq> ''''
      else if Cmd c \<in> {''RETR'', ''STOR'', ''LIST'', ''NLST''} then Data s \<noteq> None
      else True)"

text \<open>The wording of the not-found reply, command by command.\<close>

definition not_found_text :: "string \<Rightarrow> string" where
  "not_found_text cmd =
     (if cmd \<in> {''CWD'', ''CDUP'', ''LIST'', ''NLST''} then ''No such directory.''
      else if cmd = ''MDTM'' then ''No such file or directory.''
      else ''No such file.'')"

text \<open>The last call logged.\<close>

definition last_event :: "fileSession \<Rightarrow> event option" where
  "last_event s = (if log s = [] then None else Some (last (log s)))"

text \<open>A civil time in the range of the four-digit years.\<close>

definition four_digit_year :: "civil \<Rightarrow> bool" where
  "four_digit_year t =
     (0 \<le> Year t \<and> Year t \<le> 9999 \<and> Month t \<le> 12 \<and> Day t \<le> 31
      \<and> Hour t \<le> 23 \<and> Minute t \<le> 59 \<and> Second t \<le> 59)"

text \<open>The eight spellings of \<open>ALL\<close> that differ in case only.\<close>

definition all_spellings :: "string set" where
  "all_spellings =
     {''ALL'', ''ALl'', ''AlL'', ''All'', ''aLL'', ''aLl'', ''alL'', ''all''}"

section \<open>Sample collaborators\<close>

text \<open>
  An environment where every call succeeds: no \<^verbatim>\<open>Authorizer\<close>, no TLS, paths resolved
  by joining the directory and the argument, every path a file of three bytes.
\<close>

definition noon :: civil where
  "noon = \<lparr>Year = 2024, Month = 2, Day = 29, Hour = 12, Minute = 0, Second = 7\<rparr>"

definition calm :: env where
  "calm = \<lparr>Reply_ret = (\<lambda>code m. None), Authorizer = None, Server_TLS = False,
     Addr_Network = ''tcp4'', Path_ret = (\<lambda>d p. d @ ''/'' @ p),
     SetType_ret = (\<lambda>t. None), SetMode_ret = (\<lambda>m. None),
     Stat_ret = (\<lambda>p. Inr \<lparr>IsDir = False, Size = 3, ModTime = noon\<rparr>),
     Mkdir_ret = (\<lambda>p. None), Remove_ret = (\<lambda>p. None), Rename_ret = (\<lambda>p q. None),
     Open_ret = (\<lambda>p. None), Create_ret = (\<lambda>p. None), Seek_ret = (\<lambda>p n. None),
     CopyToData_ret = (\<lambda>p. None), CopyFromData_ret = (\<lambda>p. None),
     Readdir_ret = (\<lambda>p. Inr []), ListWrite_ret = (\<lambda>cmd p. None),
     FileClose_ret = (\<lambda>p. None), CloseData_ret = None,
     Passive_ret = (\<lambda>nw. Inr \<lparr>HostPort = ''127,0,0,1,8,1'', Port = 2049\<rparr>),
     Active_ret = (\<lambda>a. Inr \<lparr>HostPort = ''127,0,0,1,8,2'', Port = 2050\<rparr>),
     ParsePORT = (\<lambda>m. Inr m), ParseEPRT = (\<lambda>m. Inr m),
     listLines = (\<lambda>l. [])\<rparr>"

text \<open>A password check: only \<open>alice\<close> with \<open>secret\<close> is let in; \<open>mallory\<close> breaks it.\<close>

definition door :: "string \<Rightarrow> string \<Rightarrow> bool \<times> error option" where
  "door u p =
     (if u = ''mallory'' then (False, Some (Other ''backend down''))
      else (u = ''alice'' \<and> p = ''secret'', None))"

definition guarded :: env where
  "guarded = calm\<lparr>Authorizer := Some door\<rparr>"

text \<open>A session that has logged in, without and with a data channel.\<close>

definition logged_in :: fileSession where
  "logged_in = new_session\<lparr>User := ''alice'', Password := ''secret'', authed := True\<rparr>"

definition with_data :: fileSession where
  "with_data = logged_in\<lparr>Data := Some \<lparr>HostPort = ''127,0,0,1,8,1'', Port = 2049\<rparr>\<rparr>"

definition cmd :: "string \<Rightarrow> string \<Rightarrow> Command" where
  "cmd v a = \<lparr>Cmd = v, Msg = a\<rparr>"

text \<open>
  Two states agree on the fields the protocol decisions read: the login, the pending
  rename, the passive-only lock and the restart offset.
\<close>

definition keeps :: "fileSession \<Rightarrow> fileSession \<Rightarrow> bool" where
  "keeps s s' =
     (User s' = User s \<and> Password s' = Password s \<and> authed s' = authed s
      \<and> renaming s' = renaming s \<and> epsvOnly s' = epsvOnly s \<and> restart s' = restart s)"

text \<open>The calls that close a file or the data channel, and those that open a file.\<close>

fun is_close :: "event \<Rightarrow> bool" where
  "is_close (EvFileClose p) = True"
| "is_close EvCloseData = True"
| "is_close ev = False"

fun is_open :: "event \<Rightarrow> bool" where
  "is_open (EvOpen p) = True"
| "is_open (EvCreate p) = True"
| "is_open ev = False"

text \<open>Collaborators that fail at one call: the seek, the close of a file.\<close>

definition bad_seek :: env where
  "bad_seek = calm\<lparr>Seek_ret := (\<lambda>p n. Some (Other ''seek failed''))\<rparr>"

definition bad_close :: env where
  "bad_close = calm\<lparr>FileClose_ret := (\<lambda>p. Some (Other ''close failed''))\<rparr>"

text \<open>
  Filesystems that refuse: no permission to make a directory, no parent directory for a
  new file, no file to open, no permission to look at anything, and one where every
  path is a directory.
\<close>

definition no_mkdir :: env where
  "no_mkdir = calm\<lparr>Mkdir_ret := (\<lambda>p. Some (Permission ''permission denied''))\<rparr>"

definition no_parent :: env where
  "no_parent = calm\<lparr>Create_ret := (\<lambda>p. Some (NotExist ''no such file or directory''))\<rparr>"

definition no_file :: env where
  "no_file = calm\<lparr>Open_ret := (\<lambda>p. Some (NotExist ''file does not exist''))\<rparr>"

definition no_access :: env where
  "no_access = calm\<lparr>Stat_ret := (\<lambda>p. Inl (Permission ''permission denied''))\<rparr>"

definition all_dirs :: env where
  "all_dirs = calm\<lparr>Stat_ret := (\<lambda>p. Inr \<lparr>IsDir = True, Size = 4096, ModTime = noon\<rparr>)\<rparr>"

text \<open>A data channel whose close fails.\<close>

definition bad_hangup :: env where
  "bad_hangup = calm\<lparr>CloseData_ret := Some (Other ''hangup failed'')\<rparr>"

section \<open>What each call and each command leaves alone\<close>

lemmas prim_defs = Reply_def Path_def Stat_def Open_def Create_def Seek_def FileClose_def
  CloseData_def Passive_def Active_def CopyToData_def CopyFromData_def ListWrite_def

lemma keeps_refl [simp]: "keeps s s"
  by (simp add: keeps_def)

lemma keeps_emit [simp]: "keeps s (emit ev s') = keeps s s'"
  by (simp add: keeps_def emit_def)

lemma keeps_other_fields [simp]:
  "keeps s (s'\<lparr>Data := d\<rparr>) = keeps s s'"
  "keeps s (s'\<lparr>Dir := p\<rparr>) = keeps s s'"
  "keeps s (s'\<lparr>TLS := b\<rparr>) = keeps s s'"
  "keeps s (s'\<lparr>log := l\<rparr>) = keeps s s'"
  by (simp_all add: keeps_def)

lemma keeps_Reply [simp]: "keeps s (snd (Reply e code m s')) = keeps s s'"
  by (simp add: Reply_def)

lemma keeps_Stat [simp]: "keeps s (snd (Stat e p s')) = keeps s s'"
  by (simp add: Stat_def)

lemma keeps_Open [simp]: "keeps s (snd (Open e p s')) = keeps s s'"
  by (simp add: Open_def)

lemma keeps_Create [simp]: "keeps s (snd (Create e p s')) = keeps s s'"
  by (simp add: Create_def)

lemma keeps_Seek [simp]: "keeps s (snd (Seek e p n s')) = keeps s s'"
  by (simp add: Seek_def)

lemma keeps_FileClose [simp]: "keeps s (snd (FileClose e p s')) = keeps s s'"
  by (simp add: FileClose_def)

lemma keeps_CloseData [simp]: "keeps s (snd (CloseData e s')) = keeps s s'"
  by (simp add: CloseData_def)

lemma keeps_Passive [simp]: "keeps s (snd (Passive e nw s')) = keeps s s'"
  by (simp add: Passive_def split: sum.splits)

lemma keeps_Active [simp]: "keeps s (snd (Active e a s')) = keeps s s'"
  by (simp add: Active_def split: sum.splits)

lemma keeps_CopyToData [simp]: "keeps s (snd (CopyToData e p s')) = keeps s s'"
  by (simp add: CopyToData_def)

lemma keeps_CopyFromData [simp]: "keeps s (snd (CopyFromData e p s')) = keeps s s'"
  by (simp add: CopyFromData_def)

lemma keeps_ListWrite [simp]: "keeps s (snd (ListWrite e v p s')) = keeps s s'"
  by (simp add: ListWrite_def)

lemma keeps_abort_transfer [simp]: "keeps s (snd (abort_transfer e p err s')) = keeps s s'"
  by (simp add: abort_transfer_def)

lemma keeps_seek_restart [simp]: "keeps s (snd (seek_restart e p s')) = keeps s s'"
  by (simp add: seek_restart_def)

lemma keeps_retrieve [simp]: "keeps s (snd (retrieve e c s))"
  by (simp add: retrieve_def Let_def split_beta split: option.splits)


lemma keeps_store [simp]: "keeps s (snd (store e c s))"
  by (simp add: store_def Let_def split_beta split: option.splits)

lemma keeps_list_cmd [simp]: "keeps s (snd (list_cmd e c s))"
  by (simp add: list_cmd_def Let_def split_beta split: option.splits)

lemma keeps_stat [simp]: "keeps s (snd (stat e p s))"
  by (simp add: stat_def split_beta split: sum.splits option.splits)

lemma keeps_change_dir [simp]: "keeps s (snd (change_dir e p s))"
  by (simp add: change_dir_def split_beta split: sum.splits)

lemma keeps_epsv_passive [simp]: "keeps s (snd (epsv_passive e nw s))"
  by (simp add: epsv_passive_def split_beta split: sum.splits)

lemma keeps_connect_active [simp]: "keeps s (snd (connect_active e r s))"
  by (simp add: connect_active_def split_beta split: sum.splits)

lemma keeps_handlers [simp]:
  "keeps s (snd (handle_TYPE e c s))"
  "keeps s (snd (handle_MODE e c s))"
  "keeps s (snd (handle_PWD e c s))"
  "keeps s (snd (handle_CWD e c s))"
  "keeps s (snd (handle_CDUP e c s))"
  "keeps s (snd (handle_MKD e c s))"
  "keeps s (snd (handle_SIZE e c s))"
  "keeps s (snd (handle_MDTM e c s))"
  "keeps s (snd (handle_DELE e c s))"
  "keeps s (snd (handle_RNTO e c s))"
  "keeps s (snd (handle_PASV e c s))"
  "keeps s (snd (handle_PORT e c s))"
  "keeps s (snd (handle_EPRT e c s))"
  "keeps s (snd (handle_STAT e c s))"
  "keeps s (snd (handle_LIST e c s))"
  "keeps s (snd (handle_RETR e c s))"
  "keeps s (snd (handle_STOR e c s))"
  "keeps s (snd (handle_PBSZ e c s))"
  "keeps s (snd (handle_PROT e c s))"
  "keeps s (snd (handle_OPTS e c s))"
  by (simp_all add: handle_TYPE_def handle_MODE_def handle_PWD_def handle_CWD_def
      handle_CDUP_def handle_MKD_def handle_SIZE_def handle_MDTM_def handle_DELE_def
      handle_RNTO_def handle_PASV_def handle_PORT_def handle_EPRT_def handle_STAT_def
      handle_LIST_def handle_RETR_def handle_STOR_def handle_PBSZ_def handle_PROT_def
      handle_OPTS_def Let_def split_beta split: sum.splits option.splits)

lemma keeps_handlePreAuth_authed: "authed s \<Longrightarrow> keeps s (snd (handlePreAuth e c s))"
  by (simp add: handlePreAuth_def)

lemma handlePreAuth_fields:
  "renaming (snd (handlePreAuth e c s)) = renaming s"
  "epsvOnly (snd (handlePreAuth e c s)) = epsvOnly s"
  "restart (snd (handlePreAuth e c s)) = restart s"
  "Data (snd (handlePreAuth e c s)) = Data s"
  by (simp_all add: handlePreAuth_def login_def Reply_def emit_def
      split: option.splits prod.splits)

lemma handle_RNFR_fields:
  "epsvOnly (snd (handle_RNFR e c s)) = epsvOnly s"
  "restart (snd (handle_RNFR e c s)) = restart s"
  "authed (snd (handle_RNFR e c s)) = authed s"
  by (simp_all add: handle_RNFR_def Reply_def emit_def)

lemma handle_REST_fields:
  "epsvOnly (snd (handle_REST e c s)) = epsvOnly s"
  "renaming (snd (handle_REST e c s)) = renaming s"
  "authed (snd (handle_REST e c s)) = authed s"
  by (simp_all add: handle_REST_def Reply_def emit_def split: option.splits)

lemma handle_EPSV_fields:
  "restart (snd (handle_EPSV e c s)) = restart s"
  "renaming (snd (handle_EPSV e c s)) = renaming s"
  "authed (snd (handle_EPSV e c s)) = authed s"
  "epsvOnly s \<Longrightarrow> epsvOnly (snd (handle_EPSV e c s))"
  by (simp_all add: handle_EPSV_def epsv_passive_def Passive_def Reply_def emit_def
      split: sum.splits)

lemma keeps_handlePostAuth:
  assumes "authed s" "Cmd c \<noteq> ''RNFR''" "Cmd c \<noteq> ''EPSV''" "Cmd c \<noteq> ''REST''"
  shows "keeps s (snd (handlePostAuth e c s))"
  using assms by (simp add: handlePostAuth_def keeps_handlePreAuth_authed)

lemma handle_restart: "Cmd c \<noteq> ''REST'' \<Longrightarrow> restart (snd (handle e c s)) = restart s"
proof (cases "authed s")
  case False
  then show ?thesis by (simp add: handle_def handlePreAuth_fields)
next
  case True
  assume "Cmd c \<noteq> ''REST''"
  show ?thesis
  proof (cases "Cmd c = ''RNFR'' \<or> Cmd c = ''EPSV''")
    case True
    with \<open>authed s\<close> show ?thesis
      by (auto simp: handle_def handlePostAuth_def handle_RNFR_fields handle_EPSV_fields)
  next
    case False
    with \<open>authed s\<close> \<open>Cmd c \<noteq> ''REST''\<close> have "keeps s (snd (handlePostAuth e c s))"
      by (simp add: keeps_handlePostAuth)
    with \<open>authed s\<close> show ?thesis by (simp add: handle_def keeps_def)
  qed
qed

lemma handle_epsvOnly: "epsvOnly s \<Longrightarrow> epsvOnly (snd (handle e c s))"
proof (cases "authed s")
  case False
  assume "epsvOnly s"
  with False show ?thesis by (simp add: handle_def handlePreAuth_fields)
next
  case True
  assume lock: "epsvOnly s"
  show ?thesis
  proof (cases "Cmd c = ''RNFR'' \<or> Cmd c = ''EPSV'' \<or> Cmd c = ''REST''")
    case True
    with \<open>authed s\<close> lock show ?thesis
      by (auto simp: handle_def handlePostAuth_def handle_RNFR_fields handle_EPSV_fields
          handle_REST_fields)
  next
    case False
    with \<open>authed s\<close> have "keeps s (snd (handlePostAuth e c s))"
      by (simp add: keeps_handlePostAuth)
    with \<open>authed s\<close> lock show ?thesis by (simp add: handle_def keeps_def)
  qed
qed

lemma handle_authed: "authed s \<Longrightarrow> authed (snd (handle e c s))"
proof -
  assume a: "authed s"
  show ?thesis
  proof (cases "Cmd c = ''RNFR'' \<or> Cmd c = ''EPSV'' \<or> Cmd c = ''REST''")
    case True
    with a show ?thesis
      by (auto simp: handle_def handlePostAuth_def handle_RNFR_fields handle_EPSV_fields
          handle_REST_fields)
  next
    case False
    with a have "keeps s (snd (handlePostAuth e c s))"
      by (simp add: keeps_handlePostAuth)
    with a show ?thesis by (simp add: handle_def keeps_def)
  qed
qed

lemma handle_REST_restart:
  "0 \<le> restart s \<Longrightarrow> 0 \<le> restart (snd (handle_REST e c s))"
  by (simp add: handle_REST_def Reply_def emit_def split: option.splits)

lemma reset_transient_fields [simp]:
  "epsvOnly (reset_transient c s) = epsvOnly s"
  "authed (reset_transient c s) = authed s"
  "User (reset_transient c s) = User s"
  "Data (reset_transient c s) = Data s"
  "log (reset_transient c s) = log s"
  "restart (reset_transient c s) = (if Cmd c \<noteq> ''REST'' then 0 else restart s)"
  "renaming (reset_transient c s) = (if Cmd c \<noteq> ''RNFR'' then '''' else renaming s)"
  by (simp_all add: reset_transient_def Let_def)

section \<open>Reading the log\<close>

lemma since_self [simp]: "since s s = []"
  by (simp add: since_def)

lemma since_emit_self [simp]: "since s (emit ev s) = [ev]"
  by (simp add: since_def emit_def)

lemma log_Reply [simp]: "log (snd (Reply e code m s)) = log s @ [EvReply code m]"
  by (simp add: Reply_def emit_def)

lemma since_Reply [simp]: "since s (snd (Reply e code m s)) = [EvReply code m]"
  by (simp add: since_def)

lemma fst_Reply [simp]: "fst (Reply e code m s) = Reply_ret e code m"
  by (simp add: Reply_def)

section \<open>Running the samples\<close>

lemmas run_defs = handle_def handlePreAuth_def handlePostAuth_def reset_transient_def
  Reply_def emit_def cmd_def calm_def new_session_def logged_in_def with_data_def

section \<open>What a transfer does, call by call\<close>

lemmas transfer_defs = Let_def prim_defs abort_transfer_def seek_restart_def seek_answer_def
  emit_def since_def

lemma first_error_single [simp]: "first_error [r] = r"
  by (cases r) simp_all

lemma retrieve_result:
  "Data s \<noteq> None \<Longrightarrow>
   fst (retrieve e c s) =
     first_error [Open_ret e (Path e s (Msg c)), Reply_ret e 150 ''Here comes the file.'',
       seek_answer e (Path e s (Msg c)) s, CopyToData_ret e (Path e s (Msg c)),
       CloseData_ret e]"
  by (auto simp: retrieve_def transfer_defs split: option.splits)

lemma store_result:
  "Data s \<noteq> None \<Longrightarrow>
   fst (store e c s) =
     first_error [Create_ret e (Path e s (Msg c)), Reply_ret e 150 ''Awaiting file data.'',
       seek_answer e (Path e s (Msg c)) s, CopyFromData_ret e (Path e s (Msg c)),
       FileClose_ret e (Path e s (Msg c))]"
  by (auto simp: store_def transfer_defs split: option.splits)

lemma list_result:
  "Data s \<noteq> None \<Longrightarrow>
   fst (list_cmd e c s) =
     first_error [Open_ret e (Path e s (stripListFlags (Msg c))),
       Reply_ret e 150 ''Here comes the list.'',
       ListWrite_ret e (Cmd c) (Path e s (stripListFlags (Msg c))), CloseData_ret e]"
  by (auto simp: list_cmd_def transfer_defs split: option.splits)

lemma retrieve_log:
  "Data s \<noteq> None \<Longrightarrow> p = Path e s (Msg c) \<Longrightarrow>
   since s (snd (retrieve e c s)) =
     EvOpen p #
     (if Open_ret e p \<noteq> None then [EvCloseData]
      else EvReply 150 ''Here comes the file.'' #
        (if Reply_ret e 150 ''Here comes the file.'' \<noteq> None then [EvFileClose p, EvCloseData]
         else (if restart s > 0 then [EvSeek p (restart s)] else []) @
           (if seek_answer e p s \<noteq> None then [EvFileClose p, EvCloseData]
            else [EvCopyToData p, EvFileClose p, EvCloseData])))"
  by (auto simp: retrieve_def transfer_defs split: option.splits)

lemma store_log:
  "Data s \<noteq> None \<Longrightarrow> p = Path e s (Msg c) \<Longrightarrow>
   since s (snd (store e c s)) =
     EvCreate p #
     (if Create_ret e p \<noteq> None then [EvCloseData]
      else EvReply 150 ''Awaiting file data.'' #
        (if Reply_ret e 150 ''Awaiting file data.'' \<noteq> None then [EvFileClose p, EvCloseData]
         else (if restart s > 0 then [EvSeek p (restart s)] else []) @
           (if seek_answer e p s \<noteq> None then [EvFileClose p, EvCloseData]
            else [EvCopyFromData p, EvFileClose p, EvCloseData])))"
  by (auto simp: store_def transfer_defs split: option.splits)

lemma list_log:
  "Data s \<noteq> None \<Longrightarrow> p = Path e s (stripListFlags (Msg c)) \<Longrightarrow>
   since s (snd (list_cmd e c s)) =
     EvOpen p #
     (if Open_ret e p \<noteq> None then [EvCloseData]
      else EvReply 150 ''Here comes the list.'' #
        (if Reply_ret e 150 ''Here comes the list.'' \<noteq> None then [EvFileClose p, EvCloseData]
         else [EvListWrite (Cmd c) p, EvFileClose p, EvCloseData]))"
  by (auto simp: list_cmd_def transfer_defs split: option.splits)

lemma transfer_leaves_no_channel:
  "Data s \<noteq> None \<Longrightarrow> Data (snd (retrieve e c s)) = None"
  "Data s \<noteq> None \<Longrightarrow> Data (snd (store e c s)) = None"
  "Data s \<noteq> None \<Longrightarrow> Data (snd (list_cmd e c s)) = None"
  by (auto simp: retrieve_def store_def list_cmd_def transfer_defs split: option.splits)

lemma no_channel:
  "Data s = None \<Longrightarrow> retrieve e c s = (Some errNoDataConn, s)"
  "Data s = None \<Longrightarrow> store e c s = (Some errNoDataConn, s)"
  "Data s = None \<Longrightarrow> list_cmd e c s = (Some errNoDataConn, s)"
  by (simp_all add: retrieve_def store_def list_cmd_def)

lemma digit_val_range: "is_digit ch \<Longrightarrow> 0 \<le> digit_val ch \<and> digit_val ch \<le> 9"
proof -
  assume "is_digit ch"
  then have "48 \<le> (of_char ch :: nat)" "(of_char ch :: nat) \<le> 57"
    by (simp_all add: is_digit_def less_eq_char_def)
  moreover have "(of_char ch :: int) = int (of_char ch)"
    by (simp add: of_nat_of_char)
  ultimately show ?thesis by (simp add: digit_val_def)
qed

lemma foldl_digits_nonneg:
  "list_all is_digit ds \<Longrightarrow> 0 \<le> acc \<Longrightarrow>
     0 \<le> foldl (\<lambda>acc ch. 10 * acc + digit_val ch) acc ds"
proof (induction ds arbitrary: acc)
  case Nil
  then show ?case by simp
next
  case (Cons d ds)
  from Cons.prems have "0 \<le> digit_val d" using digit_val_range [of d] by simp
  with Cons.prems have "0 \<le> 10 * acc + digit_val d" by simp
  with Cons show ?case by simp
qed

lemma decimal_val_nonneg: "list_all is_digit ds \<Longrightarrow> 0 \<le> decimal_val ds"
  by (simp add: decimal_val_def foldl_digits_nonneg)

lemma ParseInt_range: "ParseInt m = Some n \<Longrightarrow> - (2 ^ 63) \<le> n \<and> n < 2 ^ 63"
  using decimal_val_nonneg [of m] decimal_val_nonneg [of "tl m"]
  by (auto simp: ParseInt_def Let_def split: if_splits)

lemma ParseInt_digits:
  "ParseInt m = Some n \<Longrightarrow>
     m \<noteq> [] \<and> (list_all is_digit m \<or> (hd m \<in> {CHR ''+'', CHR ''-''} \<and> tl m \<noteq> []
        \<and> list_all is_digit (tl m)))"
  by (auto simp: ParseInt_def Let_def split: if_splits)

lemma rest_rejected:
  assumes "authed s" "Cmd c = ''REST''"
    and "ParseInt (Msg c) = None \<or> (\<exists>n. ParseInt (Msg c) = Some n \<and> n < 0)"
  shows "handle e c s = Reply e 501 ''Invalid syntax.'' s"
  using assms by (auto simp: handle_def handlePostAuth_def handle_REST_def)

lemma rest_accepted:
  assumes "authed s" "Cmd c = ''REST''" "ParseInt (Msg c) = Some n" "0 \<le> n"
  shows "handle e c s
     = Reply e 350 (''Restart position accepted ('' @ FormatInt n @ '').'') (s\<lparr>restart := n\<rparr>)"
  using assms by (auto simp: handle_def handlePostAuth_def handle_REST_def)

lemma digit_char_simps:
  "digit_char 0 = CHR ''0''" "digit_char (Suc 0) = CHR ''1''" "digit_char 2 = CHR ''2''"
  "digit_char 3 = CHR ''3''" "digit_char 4 = CHR ''4''" "digit_char 5 = CHR ''5''"
  "digit_char 6 = CHR ''6''" "digit_char 7 = CHR ''7''" "digit_char 8 = CHR ''8''"
  "digit_char 9 = CHR ''9''"
  by (simp_all add: digit_char_def char_of_eq_iff take_bit_eq_mod)

lemma FormatInt_samples:
  "FormatInt 2049 = ''2049''" "FormatInt 0 = ''0''" "FormatInt (- 17) = ''-17''"
  by (simp_all add: FormatInt_def digits.simps digit_char_simps)

lemma last_event_Reply [simp]: "last_event (snd (Reply e code m s)) = Some (EvReply code m)"
  by (simp add: last_event_def Reply_def emit_def)

lemma retr_open_failure:
  assumes "authed s" "Data s \<noteq> None" "Cmd c = ''RETR''"
    and "Open_ret e (Path e s (Msg c)) = Some err" "err \<noteq> errNoDataConn"
  shows "handle e c s =
     Reply e 550
       (if isPermission (Some err) then ''Insufficient permissions.''
        else if isNotExist (Some err) then ''No such file.'' else ''Error retrieving file.'')
       (snd (CloseData e (snd (Open e (Path e s (Msg c)) s))))"
  using assms
  by (auto simp: handle_def handlePostAuth_def handle_RETR_def retrieve_def Let_def Open_def)

lemma list_open_failure:
  assumes "authed s" "Data s \<noteq> None" "Cmd c = ''LIST'' \<or> Cmd c = ''NLST''"
    and "Open_ret e (Path e s (stripListFlags (Msg c))) = Some err" "err \<noteq> errNoDataConn"
  shows "handle e c s =
     Reply e 550
       (if isPermission (Some err) then ''Insufficient permissions.''
        else if isNotExist (Some err) then ''No such directory.''
        else ''Error listing directory.'')
       (snd (CloseData e (snd (Open e (Path e s (stripListFlags (Msg c))) s))))"
  using assms
  by (auto simp: handle_def handlePostAuth_def handle_LIST_def list_cmd_def Let_def Open_def)

lemma stor_create_failure:
  assumes "authed s" "Data s \<noteq> None" "Cmd c = ''STOR''"
    and "Create_ret e (Path e s (Msg c)) = Some err" "err \<noteq> errNoDataConn"
  shows "handle e c s =
     Reply e 550
       (if isPermission (Some err) then ''Insufficient permissions.''
        else ''Error storing file.'')
       (snd (CloseData e (snd (Create e (Path e s (Msg c)) s))))"
  using assms
  by (auto simp: handle_def handlePostAuth_def handle_STOR_def store_def Let_def Create_def)

lemma open_failure_codes:
  assumes "authed s" "Data s \<noteq> None" "Cmd c \<in> {''RETR'', ''STOR'', ''LIST'', ''NLST''}"
    and "fs_answer e c s = Some err" "err \<noteq> errNoDataConn"
  shows "reply_codes (since s (snd (handle e c s))) = [550]"
proof -
  consider "Cmd c = ''RETR''" | "Cmd c = ''STOR''" | "Cmd c = ''LIST'' \<or> Cmd c = ''NLST''"
    using assms(3) by auto
  then show ?thesis
  proof cases
    case 1
    with assms(4) have "Open_ret e (Path e s (Msg c)) = Some err"
      by (simp add: fs_answer_def target_def)
    from retr_open_failure [OF assms(1,2) 1 this assms(5)] show ?thesis
      by (simp add: since_def Reply_def CloseData_def Open_def emit_def)
  next
    case 2
    with assms(4) have "Create_ret e (Path e s (Msg c)) = Some err"
      by (simp add: fs_answer_def target_def)
    from stor_create_failure [OF assms(1,2) 2 this assms(5)] show ?thesis
      by (simp add: since_def Reply_def CloseData_def Create_def emit_def)
  next
    case 3
    with assms(4) have "Open_ret e (Path e s (stripListFlags (Msg c))) = Some err"
      by (auto simp: fs_answer_def target_def)
    from list_open_failure [OF assms(1,2) 3 this assms(5)] show ?thesis
      by (simp add: since_def Reply_def CloseData_def Open_def emit_def)
  qed
qed

lemma cwd_failure:
  assumes "authed s" "Cmd c = ''CWD''" "Msg c \<noteq> ''''"
    and "Stat_ret e (Path e s (Msg c)) = Inl err"
  shows "handle e c s =
     Reply e 550
       (if isPermission (Some err) then ''Insufficient permissions.''
        else if isNotExist (Some err) then ''No such directory.''
        else ''Failed to change directory.'')
       (snd (Stat e (Path e s (Msg c)) s))"
  using assms
  by (simp add: handle_def handlePostAuth_def handle_CWD_def change_dir_def Stat_def err_of_def)

lemma cdup_failure:
  assumes "authed s" "Cmd c = ''CDUP''"
    and "Stat_ret e (Path e s ''..'') = Inl err"
  shows "handle e c s =
     Reply e 550
       (if isPermission (Some err) then ''Insufficient permissions.''
        else if isNotExist (Some err) then ''No such directory.''
        else ''Failed to change directory.'')
       (snd (Stat e (Path e s ''..'') s))"
  using assms
  by (simp add: handle_def handlePostAuth_def handle_CDUP_def change_dir_def Stat_def err_of_def)

lemma size_failure:
  assumes "authed s" "Cmd c = ''SIZE''"
    and "Stat_ret e (Path e s (Msg c)) = Inl err"
  shows "handle e c s =
     Reply e 550
       (if isPermission (Some err) then ''Insufficient permissions.''
        else if isNotExist (Some err) then ''No such file.''
        else ''Could not get size.'')
       (snd (Stat e (Path e s (Msg c)) s))"
  using assms
  by (simp add: handle_def handlePostAuth_def handle_SIZE_def Stat_def err_of_def)

lemma mdtm_failure:
  assumes "authed s" "Cmd c = ''MDTM''"
    and "Stat_ret e (Path e s (Msg c)) = Inl err"
  shows "handle e c s =
     Reply e 550
       (if isPermission (Some err) then ''Insufficient permissions.''
        else if isNotExist (Some err) then ''No such file or directory.''
        else ''Could not get size.'')
       (snd (Stat e (Path e s (Msg c)) s))"
  using assms
  by (simp add: handle_def handlePostAuth_def handle_MDTM_def Stat_def err_of_def)

lemma dele_failure:
  assumes "authed s" "Cmd c = ''DELE'' \<or> Cmd c = ''RMD''" "Msg c \<noteq> ''''"
    and "Remove_ret e (Path e s (Msg c)) = Some err"
  shows "handle e c s =
     Reply e 550
       (if isPermission (Some err) then ''Insufficient permissions.''
        else if isNotExist (Some err) then ''No such file.''
        else ''Could not delete file.'')
       (emit (EvRemove (Path e s (Msg c))) s)"
proof -
  from assms(1,2) have "handle e c s = handle_DELE e c s"
    by (auto simp: handle_def handlePostAuth_def)
  with assms(3,4) show ?thesis by (simp add: handle_DELE_def Let_def)
qed

lemma rnto_failure:
  assumes "authed s" "Cmd c = ''RNTO''" "Msg c \<noteq> ''''" "renaming s \<noteq> ''''"
    and "Rename_ret e (renaming s) (Path e s (Msg c)) = Some err"
  shows "handle e c s =
     Reply e 550
       (if isPermission (Some err) then ''Insufficient permissions.''
        else if isNotExist (Some err) then ''No such file.''
        else ''Could not rename file.'')
       (emit (EvRename (renaming s) (Path e s (Msg c))) s)"
  using assms
  by (simp add: handle_def handlePostAuth_def handle_RNTO_def Let_def)

lemma mkd_failure:
  assumes "authed s" "Cmd c = ''MKD''" "Mkdir_ret e (Path e s (Msg c)) = Some err"
  shows "handle e c s =
     Reply e 550 ''Failed to create directory.'' (emit (EvMkdir (Path e s (Msg c))) s)"
  using assms
  by (simp add: handle_def handlePostAuth_def handle_MKD_def Let_def)

section \<open>The authentication gate\<close>

lemma gate_closed:
  assumes "\<not> authed s" "Cmd c \<notin> {''USER'', ''PASS'', ''FEAT'', ''QUIT''}"
  shows "handle e c s = Reply e 530 ''Log in with USER and PASS.'' s"
  using assms by (simp add: handle_def handlePreAuth_def)

lemma gate_open:
  assumes "\<not> authed s" "Cmd c \<in> {''USER'', ''PASS'', ''FEAT'', ''QUIT''}"
  shows "530 \<notin> set (reply_codes (since s (snd (handle e c s))))"
  using assms
  by (auto simp: handle_def handlePreAuth_def login_def Reply_def emit_def since_def
      split: option.splits prod.splits)

text \<open>
  C1, as the code has it. While the session is not authenticated, every command whose
  verb is not USER, PASS, FEAT or QUIT (HELP and NOOP among them) is answered with the
  one reply 530 "Log in with USER and PASS." and nothing else happens; USER, PASS, FEAT
  and QUIT are handled and none of their replies has the code 530.
\<close>

theorem unauthenticated_gate:
  "\<not> authed s \<Longrightarrow>
     (Cmd c \<notin> {''USER'', ''PASS'', ''FEAT'', ''QUIT''} \<longrightarrow>
        handle e c s = Reply e 530 ''Log in with USER and PASS.'' s)
     \<and> (Cmd c \<in> {''USER'', ''PASS'', ''FEAT'', ''QUIT''} \<longrightarrow>
        530 \<notin> set (reply_codes (since s (snd (handle e c s)))))"
  using gate_closed [of s c e] gate_open [of s c e] by blast

theorem unauthenticated_gate_witness:
  "\<not> authed new_session
   \<and> handle calm (cmd ''NOOP'' '''') new_session
       = Reply calm 530 ''Log in with USER and PASS.'' new_session
   \<and> 530 \<notin> set (reply_codes (since new_session
                   (snd (handle calm (cmd ''USER'' ''alice'') new_session))))"
  using unauthenticated_gate [of new_session "cmd ''NOOP'' ''''" calm]
    unauthenticated_gate [of new_session "cmd ''USER'' ''alice''" calm]
  by (simp add: new_session_def cmd_def)

theorem help_before_login:
  "\<not> authed new_session
   \<and> since new_session (snd (handle calm (cmd ''HELP'' '''') new_session))
       = [EvReply 530 ''Log in with USER and PASS.'']"
  by (simp add: handle_def handlePreAuth_def new_session_def cmd_def)

section \<open>Logging in\<close>

lemma no_user_step:
  assumes "\<not> authed s" "User s = ''''" "Cmd c = ''USER'' \<longrightarrow> Msg c = ''''"
  shows "User (snd (handle e c s)) = '''' \<and> \<not> authed (snd (handle e c s))"
  using assms by (auto simp: handle_def handlePreAuth_def Reply_def emit_def)

lemma no_user_run:
  assumes "run xs s = Some s'" "\<not> authed s" "User s = ''''"
    and "\<forall>x \<in> set xs. Cmd (snd x) = ''USER'' \<longrightarrow> Msg (snd x) = ''''"
  shows "User s' = '''' \<and> \<not> authed s'"
  using assms
proof (induction xs arbitrary: s)
  case Nil
  then show ?case by simp
next
  case (Cons x xs)
  obtain e c where x: "x = (e, c)" by (cases x)
  obtain r s1 where h: "handle e c s = (r, s1)" by (cases "handle e c s")
  from Cons.prems x have ok: "Cmd c = ''USER'' \<longrightarrow> Msg c = ''''" by simp
  from no_user_step [OF Cons.prems(2,3) ok, of e] h
  have s1: "User s1 = ''''" "\<not> authed s1" by simp_all
  from Cons.prems(1) x h have next_run: "run xs (reset_transient c s1) = Some s'"
    by (auto split: option.splits if_splits)
  show ?case
    by (rule Cons.IH [OF next_run]) (use s1 Cons.prems(4) in simp_all)
qed

lemma pass_without_user:
  assumes "\<not> authed s" "User s = ''''" "Cmd c = ''PASS''"
  shows "handle e c s = Reply e 503 ''Log in with USER first.'' s"
  using assms by (simp add: handle_def handlePreAuth_def)

lemma pass_rejected:
  assumes "\<not> authed s" "User s \<noteq> ''''" "Cmd c = ''PASS''"
    and "Authorizer e = Some authorize" "authorize (User s) (Msg c) = (False, None)"
  shows "handle e c s = Reply e 430 ''Invalid user name or password.''
           ((emit (EvAuthorize (User s) (Msg c)) s)\<lparr>User := ''''\<rparr>)"
  using assms by (simp add: handle_def handlePreAuth_def)

lemma pass_hard_error:
  assumes "\<not> authed s" "User s \<noteq> ''''" "Cmd c = ''PASS''"
    and "Authorizer e = Some authorize" "authorize (User s) (Msg c) = (ok, Some err)"
  shows "handle e c s = (Some err, (emit (EvAuthorize (User s) (Msg c)) s)\<lparr>User := ''''\<rparr>)"
  using assms by (simp add: handle_def handlePreAuth_def)

lemma pass_accepted:
  assumes "\<not> authed s" "User s \<noteq> ''''" "Cmd c = ''PASS''"
    and "Authorizer e = Some authorize" "authorize (User s) (Msg c) = (True, None)"
  shows "handle e c s = Reply e 230 ''Login successful.''
           ((emit (EvAuthorize (User s) (Msg c)) s)\<lparr>Password := Msg c, authed := True\<rparr>)"
  using assms by (simp add: handle_def handlePreAuth_def login_def)

lemma Handle_error:
  "handle e c s = (Some err, s1) \<Longrightarrow> Handle rd ((e, c) # rest) s = (err, s1)"
  by simp

lemma Handle_continue:
  "handle e c s = (None, s1) \<Longrightarrow> Cmd c \<noteq> ''QUIT'' \<Longrightarrow>
     Handle rd ((e, c) # rest) s = Handle rd rest (reset_transient c s1)"
  by simp

text \<open>
  C2. In a session that is not authenticated, with an Authorizer configured, PASS is
  handled as follows. With no pending user name it replies 503, and no user name is
  pending in any state reached from a new session by commands none of which is a USER
  with a non-empty name. With a pending user name: when the Authorizer answers no, the
  user name is cleared, the reply is 430 "Invalid user name or password.", and the
  loop goes on to the next command once that reply is written; when the Authorizer
  fails, the user name is cleared, no reply is sent and the loop ends with that error;
  when the Authorizer answers yes, the authenticated flag is set, the password is
  recorded and the reply is 230.
\<close>

theorem pass_with_authorizer:
  assumes "\<not> authed s" and "Authorizer e = Some authorize" and "Cmd c = ''PASS''"
  shows
    "(User s = '''' \<longrightarrow> handle e c s = Reply e 503 ''Log in with USER first.'' s)
     \<and> (run xs new_session = Some s
          \<and> (\<forall>x \<in> set xs. Cmd (snd x) = ''USER'' \<longrightarrow> Msg (snd x) = '''')
          \<longrightarrow> User s = '''')
     \<and> (User s \<noteq> '''' \<and> authorize (User s) (Msg c) = (False, None) \<longrightarrow>
          handle e c s = Reply e 430 ''Invalid user name or password.''
             ((emit (EvAuthorize (User s) (Msg c)) s)\<lparr>User := ''''\<rparr>)
          \<and> User (snd (handle e c s)) = '''' \<and> \<not> authed (snd (handle e c s))
          \<and> (Reply_ret e 430 ''Invalid user name or password.'' = None \<longrightarrow>
               Handle rd ((e, c) # rest) s
                 = Handle rd rest (reset_transient c (snd (handle e c s)))))
     \<and> (User s \<noteq> '''' \<and> authorize (User s) (Msg c) = (ok, Some err) \<longrightarrow>
          handle e c s = (Some err, (emit (EvAuthorize (User s) (Msg c)) s)\<lparr>User := ''''\<rparr>)
          \<and> User (snd (handle e c s)) = ''''
          \<and> reply_codes (since s (snd (handle e c s))) = []
          \<and> fst (Handle rd ((e, c) # rest) s) = err)
     \<and> (User s \<noteq> '''' \<and> authorize (User s) (Msg c) = (True, None) \<longrightarrow>
          handle e c s = Reply e 230 ''Login successful.''
             ((emit (EvAuthorize (User s) (Msg c)) s)\<lparr>Password := Msg c, authed := True\<rparr>)
          \<and> authed (snd (handle e c s)) \<and> Password (snd (handle e c s)) = Msg c)"
proof (intro conjI impI)
  assume "User s = ''''"
  with assms show "handle e c s = Reply e 503 ''Log in with USER first.'' s"
    by (simp add: pass_without_user)
next
  assume "run xs new_session = Some s
    \<and> (\<forall>x \<in> set xs. Cmd (snd x) = ''USER'' \<longrightarrow> Msg (snd x) = '''')"
  then show "User s = ''''"
    using no_user_run [of xs new_session s] by (simp add: new_session_def)
next
  assume a: "User s \<noteq> '''' \<and> authorize (User s) (Msg c) = (False, None)"
  with assms show h: "handle e c s = Reply e 430 ''Invalid user name or password.''
             ((emit (EvAuthorize (User s) (Msg c)) s)\<lparr>User := ''''\<rparr>)"
    by (simp add: pass_rejected)
  from h show "User (snd (handle e c s)) = ''''" by (simp add: Reply_def emit_def)
  from h assms(1) show "\<not> authed (snd (handle e c s))" by (simp add: Reply_def emit_def)
  assume "Reply_ret e 430 ''Invalid user name or password.'' = None"
  with h have "handle e c s = (None, snd (handle e c s))" by (simp add: Reply_def)
  with assms(3) show "Handle rd ((e, c) # rest) s
                 = Handle rd rest (reset_transient c (snd (handle e c s)))"
    using Handle_continue [of e c s "snd (handle e c s)" rd rest] by simp
next
  assume a: "User s \<noteq> '''' \<and> authorize (User s) (Msg c) = (ok, Some err)"
  with assms show h: "handle e c s
      = (Some err, (emit (EvAuthorize (User s) (Msg c)) s)\<lparr>User := ''''\<rparr>)"
    by (simp add: pass_hard_error)
  from h show "User (snd (handle e c s)) = ''''" by simp
  from h show "reply_codes (since s (snd (handle e c s))) = []"
    by (simp add: since_def emit_def)
  from h show "fst (Handle rd ((e, c) # rest) s) = err" by simp
next
  assume a: "User s \<noteq> '''' \<and> authorize (User s) (Msg c) = (True, None)"
  with assms show h: "handle e c s = Reply e 230 ''Login successful.''
             ((emit (EvAuthorize (User s) (Msg c)) s)\<lparr>Password := Msg c, authed := True\<rparr>)"
    by (simp add: pass_accepted)
  from h show "authed (snd (handle e c s))" by (simp add: Reply_def emit_def)
  from h show "Password (snd (handle e c s)) = Msg c" by (simp add: Reply_def emit_def)
qed

theorem pass_with_authorizer_witness:
  "\<not> authed new_session \<and> Authorizer guarded = Some door
   \<and> handle guarded (cmd ''PASS'' ''secret'') new_session
       = Reply guarded 503 ''Log in with USER first.'' new_session
   \<and> since (new_session\<lparr>User := ''alice''\<rparr>)
         (snd (handle guarded (cmd ''PASS'' ''wrong'') (new_session\<lparr>User := ''alice''\<rparr>)))
       = [EvAuthorize ''alice'' ''wrong'', EvReply 430 ''Invalid user name or password.'']
   \<and> User (snd (handle guarded (cmd ''PASS'' ''wrong'') (new_session\<lparr>User := ''alice''\<rparr>))) = ''''
   \<and> fst (Handle EOF [(guarded, cmd ''PASS'' ''x''), (guarded, cmd ''NOOP'' '''')]
            (new_session\<lparr>User := ''mallory''\<rparr>)) = Other ''backend down''
   \<and> authed (snd (handle guarded (cmd ''PASS'' ''secret'') (new_session\<lparr>User := ''alice''\<rparr>)))
   \<and> Password (snd (handle guarded (cmd ''PASS'' ''secret'') (new_session\<lparr>User := ''alice''\<rparr>)))
       = ''secret''"
  using pass_with_authorizer [where s = new_session and e = guarded and authorize = door
      and c = "cmd ''PASS'' ''secret''"]
    pass_with_authorizer [where s = "new_session\<lparr>User := ''alice''\<rparr>" and e = guarded
      and authorize = door and c = "cmd ''PASS'' ''wrong''"]
    pass_with_authorizer [where s = "new_session\<lparr>User := ''mallory''\<rparr>" and e = guarded
      and authorize = door and c = "cmd ''PASS'' ''x''" and ok = False
      and err = "Other ''backend down''" and rd = EOF and rest = "[(guarded, cmd ''NOOP'' '''')]"]
    pass_with_authorizer [where s = "new_session\<lparr>User := ''alice''\<rparr>" and e = guarded
      and authorize = door and c = "cmd ''PASS'' ''secret''"]
  by (simp add: new_session_def guarded_def calm_def door_def cmd_def since_def emit_def
      Reply_def)

lemma login_scenario:
  "reply_codes (log (snd (Handle EOF
      [(guarded, cmd ''USER'' ''alice''), (guarded, cmd ''PASS'' ''wrong''),
       (guarded, cmd ''PASS'' ''wrong'')] new_session))) = [331, 430, 503]"
  by (simp add: new_session_def guarded_def calm_def door_def cmd_def emit_def Reply_def
      handle_def handlePreAuth_def reset_transient_def)

section \<open>The rename in two steps\<close>

lemma run_append:
  "run (xs @ ys) s = (case run xs s of None \<Rightarrow> None | Some s' \<Rightarrow> run ys s')"
  by (induction xs arbitrary: s) (auto split: option.splits prod.splits if_splits)

lemma run_snoc:
  assumes "run (xs @ [(e, c)]) s0 = Some s"
  shows "\<exists>s1 s2. run xs s0 = Some s1 \<and> handle e c s1 = (None, s2) \<and> Cmd c \<noteq> ''QUIT''
           \<and> s = reset_transient c s2"
  using assms
  by (auto simp: run_append split: option.splits prod.splits if_splits)

lemma rename_cleared:
  assumes "run (xs @ [(e, c)]) s0 = Some s" "Cmd c \<noteq> ''RNFR''"
  shows "renaming s = ''''"
  using run_snoc [OF assms(1)] assms(2) by auto

lemma restart_cleared:
  assumes "run (xs @ [(e, c)]) s0 = Some s" "Cmd c \<noteq> ''REST''"
  shows "restart s = 0"
  using run_snoc [OF assms(1)] assms(2) by auto

lemma rnfr_sets:
  assumes "authed s" "Cmd c = ''RNFR''" "Msg c \<noteq> ''''"
  shows "handle e c s
     = Reply e 350 ''Call RNTO to specify destination.'' (s\<lparr>renaming := Path e s (Msg c)\<rparr>)"
  using assms by (simp add: handle_def handlePostAuth_def handle_RNFR_def)

lemma rnto_without_rnfr:
  assumes "authed s" "Cmd c = ''RNTO''" "renaming s = ''''"
  shows "handle e c s =
     (if Msg c = '''' then Reply e 501 ''A file name is required.'' s
      else Reply e 503 ''Call RNFR first.'' s)"
  using assms by (simp add: handle_def handlePostAuth_def handle_RNTO_def)

text \<open>
  C3, as the code has it. An accepted RNFR (authenticated, non-empty argument) records
  the resolved source path. At the head of the loop after any command other than RNFR
  the pending rename is empty. So in an authenticated session an RNTO that comes right
  after a command other than RNFR never calls the rename of the filesystem: with a
  non-empty argument its only effect is the reply 503 "Call RNFR first.", and with an
  empty argument its only effect is the reply 501 "A file name is required.".
\<close>

theorem rnto_after_other_command:
  "(authed s1 \<and> Cmd c1 = ''RNFR'' \<and> Msg c1 \<noteq> '''' \<longrightarrow>
      renaming (snd (handle e1 c1 s1)) = Path e1 s1 (Msg c1))
   \<and> (run (xs @ [(e0, c0)]) s0 = Some s \<and> Cmd c0 \<noteq> ''RNFR'' \<longrightarrow>
        renaming s = ''''
        \<and> (authed s \<and> Cmd c = ''RNTO'' \<and> Msg c \<noteq> '''' \<longrightarrow>
             handle e c s = Reply e 503 ''Call RNFR first.'' s
             \<and> since s (snd (handle e c s)) = [EvReply 503 ''Call RNFR first.''])
        \<and> (authed s \<and> Cmd c = ''RNTO'' \<and> Msg c = '''' \<longrightarrow>
             handle e c s = Reply e 501 ''A file name is required.'' s
             \<and> since s (snd (handle e c s)) = [EvReply 501 ''A file name is required.'']))"
proof (intro conjI impI)
  assume "authed s1 \<and> Cmd c1 = ''RNFR'' \<and> Msg c1 \<noteq> ''''"
  then show "renaming (snd (handle e1 c1 s1)) = Path e1 s1 (Msg c1)"
    by (simp add: rnfr_sets Reply_def emit_def)
next
  assume a: "run (xs @ [(e0, c0)]) s0 = Some s \<and> Cmd c0 \<noteq> ''RNFR''"
  then show r: "renaming s = ''''" using rename_cleared by blast
  {
    assume b: "authed s \<and> Cmd c = ''RNTO'' \<and> Msg c \<noteq> ''''"
    with r show h: "handle e c s = Reply e 503 ''Call RNFR first.'' s"
      by (simp add: rnto_without_rnfr)
    then show "since s (snd (handle e c s)) = [EvReply 503 ''Call RNFR first.'']"
      by simp
  }
  {
    assume b: "authed s \<and> Cmd c = ''RNTO'' \<and> Msg c = ''''"
    with r show h: "handle e c s = Reply e 501 ''A file name is required.'' s"
      by (simp add: rnto_without_rnfr)
    then show "since s (snd (handle e c s)) = [EvReply 501 ''A file name is required.'']"
      by simp
  }
qed

theorem rnto_after_other_command_witness:
  "renaming (snd (handle calm (cmd ''RNFR'' ''old'') logged_in)) = ''/old''
   \<and> run ([(calm, cmd ''RNFR'' ''old'')] @ [(calm, cmd ''NOOP'' '''')]) logged_in
       = Some (logged_in\<lparr>log := [EvReply 350 ''Call RNTO to specify destination.'',
                                 EvReply 200 ''OK.'']\<rparr>)
   \<and> since (logged_in\<lparr>log := [EvReply 350 ''Call RNTO to specify destination.'',
                                 EvReply 200 ''OK.'']\<rparr>)
        (snd (handle calm (cmd ''RNTO'' ''new'')
          (logged_in\<lparr>log := [EvReply 350 ''Call RNTO to specify destination.'',
                                 EvReply 200 ''OK.'']\<rparr>)))
       = [EvReply 503 ''Call RNFR first.'']"
proof -
  have r: "run ([(calm, cmd ''RNFR'' ''old'')] @ [(calm, cmd ''NOOP'' '''')]) logged_in
       = Some (logged_in\<lparr>log := [EvReply 350 ''Call RNTO to specify destination.'',
                                 EvReply 200 ''OK.'']\<rparr>)"
    by (simp add: run_defs handle_RNFR_def Path_def)
  have a: "authed logged_in \<and> Cmd (cmd ''RNFR'' ''old'') = ''RNFR''
      \<and> Msg (cmd ''RNFR'' ''old'') \<noteq> ''''"
    by (simp add: logged_in_def cmd_def)
  have b: "Cmd (cmd ''NOOP'' '''') \<noteq> ''RNFR''"
    by (simp add: cmd_def)
  have c: "authed (logged_in\<lparr>log := [EvReply 350 ''Call RNTO to specify destination.'',
                                 EvReply 200 ''OK.'']\<rparr>)
      \<and> Cmd (cmd ''RNTO'' ''new'') = ''RNTO'' \<and> Msg (cmd ''RNTO'' ''new'') \<noteq> ''''"
    by (simp add: logged_in_def cmd_def)
  from rnto_after_other_command [where ?s1.0 = logged_in and ?c1.0 = "cmd ''RNFR'' ''old''"
      and ?e1.0 = calm and xs = "[(calm, cmd ''RNFR'' ''old'')]" and ?e0.0 = calm
      and ?c0.0 = "cmd ''NOOP'' ''''" and ?s0.0 = logged_in
      and s = "logged_in\<lparr>log := [EvReply 350 ''Call RNTO to specify destination.'',
                                 EvReply 200 ''OK.'']\<rparr>"
      and c = "cmd ''RNTO'' ''new''" and e = calm] r a b c
  show ?thesis by (simp add: Path_def calm_def logged_in_def new_session_def cmd_def)
qed

theorem rnto_empty_argument:
  "log (snd (Handle EOF
     [(calm, cmd ''USER'' ''alice''), (calm, cmd ''PASS'' ''secret''),
      (calm, cmd ''NOOP'' ''''), (calm, cmd ''RNTO'' '''')] new_session))
   = [EvReply 331 ''Please specify the password.'', EvReply 230 ''Login successful.'',
      EvReply 200 ''OK.'', EvReply 501 ''A file name is required.'']"
  by (simp add: run_defs login_def handle_RNTO_def)

section \<open>The restart offset\<close>

lemma ParseInt_samples:
  "ParseInt ''42'' = Some 42" "ParseInt ''-1'' = Some (- 1)" "ParseInt ''4x'' = None"
  "ParseInt '''' = None"
  by (simp_all add: ParseInt_def Let_def is_digit_def decimal_val_def digit_val_def)

lemma rest_survives:
  assumes "run xs s0 = Some s1" "authed s1" "Cmd c0 = ''REST''"
    and "ParseInt (Msg c0) = Some n" "0 \<le> n"
    and "Reply_ret e0 350 (''Restart position accepted ('' @ FormatInt n @ '').'') = None"
  shows "\<exists>s. run (xs @ [(e0, c0)]) s0 = Some s \<and> restart s = n"
  using assms rest_accepted [OF assms(2-5), of e0]
  by (simp add: run_append Reply_def emit_def)

text \<open>
  C4. In an authenticated session REST with an argument that \<open>ParseInt\<close> rejects, or
  that is negative, has the reply 501 "Invalid syntax." as its only effect, so the
  offset stays as it was; otherwise the offset becomes the parsed number, which is not
  negative and fits an \<^verbatim>\<open>int64\<close>, and it is still there when the next command is read.
  RETR and STOR, with a data channel, the file opened and the reply 150 written, seek
  the file to a positive offset right after the reply 150 and before any byte is
  copied; when the seek fails nothing is copied, file and channel are closed and the
  error of the seek is returned; with the offset zero no seek is made. At the head of
  the loop after any command other than REST the offset is zero.
\<close>

theorem restart_offset:
  "(authed s \<and> Cmd c = ''REST''
      \<and> (ParseInt (Msg c) = None \<or> (\<exists>n. ParseInt (Msg c) = Some n \<and> n < 0)) \<longrightarrow>
        handle e c s = Reply e 501 ''Invalid syntax.'' s
        \<and> restart (snd (handle e c s)) = restart s)
   \<and> (authed s \<and> Cmd c = ''REST'' \<and> ParseInt (Msg c) = Some n \<and> 0 \<le> n \<longrightarrow>
        handle e c s = Reply e 350 (''Restart position accepted ('' @ FormatInt n @ '').'')
                         (s\<lparr>restart := n\<rparr>)
        \<and> restart (snd (handle e c s)) = n \<and> n < 2 ^ 63
        \<and> (run xs s0 = Some s
             \<and> Reply_ret e 350 (''Restart position accepted ('' @ FormatInt n @ '').'') = None
           \<longrightarrow> (\<exists>s'. run (xs @ [(e, c)]) s0 = Some s' \<and> restart s' = n)))
   \<and> (Data s \<noteq> None \<and> p = Path e s (Msg c) \<and> Open_ret e p = None
        \<and> Reply_ret e 150 ''Here comes the file.'' = None \<longrightarrow>
        (0 < restart s \<and> Seek_ret e p (restart s) = None \<longrightarrow>
           since s (snd (retrieve e c s))
             = [EvOpen p, EvReply 150 ''Here comes the file.'', EvSeek p (restart s),
                EvCopyToData p, EvFileClose p, EvCloseData])
        \<and> (0 < restart s \<and> Seek_ret e p (restart s) = Some err \<longrightarrow>
           fst (retrieve e c s) = Some err
           \<and> since s (snd (retrieve e c s))
             = [EvOpen p, EvReply 150 ''Here comes the file.'', EvSeek p (restart s),
                EvFileClose p, EvCloseData])
        \<and> (restart s = 0 \<longrightarrow>
           since s (snd (retrieve e c s))
             = [EvOpen p, EvReply 150 ''Here comes the file.'',
                EvCopyToData p, EvFileClose p, EvCloseData]))
   \<and> (Data s \<noteq> None \<and> p = Path e s (Msg c) \<and> Create_ret e p = None
        \<and> Reply_ret e 150 ''Awaiting file data.'' = None \<longrightarrow>
        (0 < restart s \<and> Seek_ret e p (restart s) = None \<longrightarrow>
           since s (snd (store e c s))
             = [EvCreate p, EvReply 150 ''Awaiting file data.'', EvSeek p (restart s),
                EvCopyFromData p, EvFileClose p, EvCloseData])
        \<and> (0 < restart s \<and> Seek_ret e p (restart s) = Some err \<longrightarrow>
           fst (store e c s) = Some err
           \<and> since s (snd (store e c s))
             = [EvCreate p, EvReply 150 ''Awaiting file data.'', EvSeek p (restart s),
                EvFileClose p, EvCloseData])
        \<and> (restart s = 0 \<longrightarrow>
           since s (snd (store e c s))
             = [EvCreate p, EvReply 150 ''Awaiting file data.'',
                EvCopyFromData p, EvFileClose p, EvCloseData]))
   \<and> (run (ys @ [(e1, c1)]) s1 = Some s2 \<and> Cmd c1 \<noteq> ''REST'' \<longrightarrow> restart s2 = 0)"
proof (intro conjI impI)
  assume a: "authed s \<and> Cmd c = ''REST''
      \<and> (ParseInt (Msg c) = None \<or> (\<exists>n. ParseInt (Msg c) = Some n \<and> n < 0))"
  then show h: "handle e c s = Reply e 501 ''Invalid syntax.'' s"
    using rest_rejected [of s c e] by blast
  then show "restart (snd (handle e c s)) = restart s"
    by (simp add: Reply_def emit_def)
next
  assume a: "authed s \<and> Cmd c = ''REST'' \<and> ParseInt (Msg c) = Some n \<and> 0 \<le> n"
  then show h: "handle e c s
      = Reply e 350 (''Restart position accepted ('' @ FormatInt n @ '').'') (s\<lparr>restart := n\<rparr>)"
    using rest_accepted [of s c n e] by blast
  then show "restart (snd (handle e c s)) = n"
    by (simp add: Reply_def emit_def)
  from a show "n < 2 ^ 63" using ParseInt_range [of "Msg c" n] by simp
  assume "run xs s0 = Some s
     \<and> Reply_ret e 350 (''Restart position accepted ('' @ FormatInt n @ '').'') = None"
  with a show "\<exists>s'. run (xs @ [(e, c)]) s0 = Some s' \<and> restart s' = n"
    using rest_survives [of xs s0 s c n e] by blast
next
  assume a: "Data s \<noteq> None \<and> p = Path e s (Msg c) \<and> Open_ret e p = None
        \<and> Reply_ret e 150 ''Here comes the file.'' = None"
  {
    assume "0 < restart s \<and> Seek_ret e p (restart s) = None"
    with a show "since s (snd (retrieve e c s))
             = [EvOpen p, EvReply 150 ''Here comes the file.'', EvSeek p (restart s),
                EvCopyToData p, EvFileClose p, EvCloseData]"
      by (auto simp: retrieve_log seek_answer_def)
  }
  {
    assume b: "0 < restart s \<and> Seek_ret e p (restart s) = Some err"
    with a show "fst (retrieve e c s) = Some err"
      by (auto simp: retrieve_result seek_answer_def)
    from a b show "since s (snd (retrieve e c s))
             = [EvOpen p, EvReply 150 ''Here comes the file.'', EvSeek p (restart s),
                EvFileClose p, EvCloseData]"
      by (auto simp: retrieve_log seek_answer_def)
  }
  {
    assume "restart s = 0"
    with a show "since s (snd (retrieve e c s))
             = [EvOpen p, EvReply 150 ''Here comes the file.'',
                EvCopyToData p, EvFileClose p, EvCloseData]"
      by (auto simp: retrieve_log seek_answer_def)
  }
next
  assume a: "Data s \<noteq> None \<and> p = Path e s (Msg c) \<and> Create_ret e p = None
        \<and> Reply_ret e 150 ''Awaiting file data.'' = None"
  {
    assume "0 < restart s \<and> Seek_ret e p (restart s) = None"
    with a show "since s (snd (store e c s))
             = [EvCreate p, EvReply 150 ''Awaiting file data.'', EvSeek p (restart s),
                EvCopyFromData p, EvFileClose p, EvCloseData]"
      by (auto simp: store_log seek_answer_def)
  }
  {
    assume b: "0 < restart s \<and> Seek_ret e p (restart s) = Some err"
    with a show "fst (store e c s) = Some err"
      by (auto simp: store_result seek_answer_def)
    from a b show "since s (snd (store e c s))
             = [EvCreate p, EvReply 150 ''Awaiting file data.'', EvSeek p (restart s),
                EvFileClose p, EvCloseData]"
      by (auto simp: store_log seek_answer_def)
  }
  {
    assume "restart s = 0"
    with a show "since s (snd (store e c s))
             = [EvCreate p, EvReply 150 ''Awaiting file data.'',
                EvCopyFromData p, EvFileClose p, EvCloseData]"
      by (auto simp: store_log seek_answer_def)
  }
next
  assume "run (ys @ [(e1, c1)]) s1 = Some s2 \<and> Cmd c1 \<noteq> ''REST''"
  then show "restart s2 = 0" using restart_cleared by blast
qed

theorem restart_offset_witness:
  "handle calm (cmd ''REST'' ''4x'') (logged_in\<lparr>restart := 5\<rparr>)
     = Reply calm 501 ''Invalid syntax.'' (logged_in\<lparr>restart := 5\<rparr>)
   \<and> restart (snd (handle calm (cmd ''REST'' ''42'') logged_in)) = 42
   \<and> since (with_data\<lparr>restart := 5\<rparr>)
        (snd (retrieve calm (cmd ''RETR'' ''f'') (with_data\<lparr>restart := 5\<rparr>)))
     = [EvOpen ''/f'', EvReply 150 ''Here comes the file.'', EvSeek ''/f'' 5,
        EvCopyToData ''/f'', EvFileClose ''/f'', EvCloseData]
   \<and> fst (store bad_seek (cmd ''STOR'' ''f'') (with_data\<lparr>restart := 5\<rparr>))
     = Some (Other ''seek failed'')
   \<and> run ([] @ [(calm, cmd ''NOOP'' '''')]) (logged_in\<lparr>restart := 5\<rparr>)
     = Some (logged_in\<lparr>log := [EvReply 200 ''OK.'']\<rparr>)
   \<and> restart (logged_in\<lparr>log := [EvReply 200 ''OK.'']\<rparr>) = 0"
proof -
  have r: "run ([] @ [(calm, cmd ''NOOP'' '''')]) (logged_in\<lparr>restart := 5\<rparr>)
     = Some (logged_in\<lparr>log := [EvReply 200 ''OK.'']\<rparr>)"
    by (simp add: run_defs)
  have p: "ParseInt ''4x'' = None" "ParseInt ''42'' = Some 42"
    by (simp_all add: ParseInt_def Let_def is_digit_def decimal_val_def digit_val_def)
  have "handle calm (cmd ''REST'' ''4x'') (logged_in\<lparr>restart := 5\<rparr>)
     = Reply calm 501 ''Invalid syntax.'' (logged_in\<lparr>restart := 5\<rparr>)"
    using restart_offset [where s = "logged_in\<lparr>restart := 5\<rparr>" and e = calm
        and c = "cmd ''REST'' ''4x''", THEN conjunct1] p
    by (simp add: logged_in_def cmd_def)
  moreover have "restart (snd (handle calm (cmd ''REST'' ''42'') logged_in)) = 42"
    using restart_offset [where s = logged_in and e = calm and n = 42
        and c = "cmd ''REST'' ''42''" and xs = "[]" and ?s0.0 = logged_in,
        THEN conjunct2, THEN conjunct1] p
    by (auto simp: logged_in_def cmd_def)
  moreover have "since (with_data\<lparr>restart := 5\<rparr>)
        (snd (retrieve calm (cmd ''RETR'' ''f'') (with_data\<lparr>restart := 5\<rparr>)))
     = [EvOpen ''/f'', EvReply 150 ''Here comes the file.'', EvSeek ''/f'' 5,
        EvCopyToData ''/f'', EvFileClose ''/f'', EvCloseData]"
    using restart_offset [where s = "with_data\<lparr>restart := 5\<rparr>" and e = calm
        and c = "cmd ''RETR'' ''f''" and p = "''/f''",
        THEN conjunct2, THEN conjunct2, THEN conjunct1]
    by (simp add: with_data_def logged_in_def new_session_def cmd_def calm_def Path_def)
  moreover have "fst (store bad_seek (cmd ''STOR'' ''f'') (with_data\<lparr>restart := 5\<rparr>))
     = Some (Other ''seek failed'')"
    using restart_offset [where s = "with_data\<lparr>restart := 5\<rparr>" and e = bad_seek
        and c = "cmd ''STOR'' ''f''" and p = "''/f''" and err = "Other ''seek failed''",
        THEN conjunct2, THEN conjunct2, THEN conjunct2, THEN conjunct1]
    by (simp add: with_data_def logged_in_def new_session_def cmd_def calm_def bad_seek_def
        Path_def)
  moreover have "restart (logged_in\<lparr>log := [EvReply 200 ''OK.'']\<rparr>) = 0"
    using restart_offset [where ys = "[]" and ?e1.0 = calm and ?c1.0 = "cmd ''NOOP'' ''''"
        and ?s1.0 = "logged_in\<lparr>restart := 5\<rparr>"
        and ?s2.0 = "logged_in\<lparr>log := [EvReply 200 ''OK.'']\<rparr>",
        THEN conjunct2, THEN conjunct2, THEN conjunct2, THEN conjunct2] r
    by (simp add: cmd_def)
  ultimately show ?thesis using r by simp
qed

section \<open>The passive-only lock\<close>

lemma of_char_upper:
  "(of_char (upper_char ch) :: nat)
     = (if 97 \<le> (of_char ch :: nat) \<and> (of_char ch :: nat) \<le> 122 then of_char ch - 32
        else of_char ch)"
proof -
  have "(of_char ch :: nat) - 32 < 256"
    using nat_of_char_less_256 [of ch] by linarith
  then have "((of_char ch :: nat) - 32) mod 256 = of_char ch - 32"
    by (rule mod_less)
  then show ?thesis by (simp add: upper_char_def less_eq_char_def)
qed

lemma upper_char_A: "upper_char ch = CHR ''A'' \<longleftrightarrow> ch = CHR ''A'' \<or> ch = CHR ''a''"
proof -
  have "upper_char ch = CHR ''A'' \<longleftrightarrow> (of_char (upper_char ch) :: nat) = of_char CHR ''A''"
    by (simp only: of_char_eq_iff)
  also have "\<dots> \<longleftrightarrow> (of_char ch :: nat) = 65 \<or> (of_char ch :: nat) = 97"
    by (auto simp: of_char_upper)
  also have "\<dots> \<longleftrightarrow> (of_char ch :: nat) = of_char CHR ''A''
      \<or> (of_char ch :: nat) = of_char CHR ''a''"
    by simp
  also have "\<dots> \<longleftrightarrow> ch = CHR ''A'' \<or> ch = CHR ''a''"
    by (simp only: of_char_eq_iff)
  finally show ?thesis .
qed

lemma upper_char_L: "upper_char ch = CHR ''L'' \<longleftrightarrow> ch = CHR ''L'' \<or> ch = CHR ''l''"
proof -
  have "upper_char ch = CHR ''L'' \<longleftrightarrow> (of_char (upper_char ch) :: nat) = of_char CHR ''L''"
    by (simp only: of_char_eq_iff)
  also have "\<dots> \<longleftrightarrow> (of_char ch :: nat) = 76 \<or> (of_char ch :: nat) = 108"
    by (auto simp: of_char_upper)
  also have "\<dots> \<longleftrightarrow> (of_char ch :: nat) = of_char CHR ''L''
      \<or> (of_char ch :: nat) = of_char CHR ''l''"
    by simp
  also have "\<dots> \<longleftrightarrow> ch = CHR ''L'' \<or> ch = CHR ''l''"
    by (simp only: of_char_eq_iff)
  finally show ?thesis .
qed

lemma ToUpper_ALL: "ToUpper m = ''ALL'' \<longleftrightarrow> m \<in> all_spellings"
proof
  assume u: "ToUpper m = ''ALL''"
  then have "length m = 3" by (auto simp: ToUpper_def dest: arg_cong [where f = length])
  then obtain a b c where m: "m = [a, b, c]"
    by (cases m; cases "tl m"; cases "tl (tl m)") auto
  with u have "upper_char a = CHR ''A''" "upper_char b = CHR ''L''" "upper_char c = CHR ''L''"
    by (simp_all add: ToUpper_def)
  then have "(a = CHR ''A'' \<or> a = CHR ''a'') \<and> (b = CHR ''L'' \<or> b = CHR ''l'')
      \<and> (c = CHR ''L'' \<or> c = CHR ''l'')"
    by (simp add: upper_char_A upper_char_L)
  with m show "m \<in> all_spellings" by (auto simp: all_spellings_def)
next
  assume "m \<in> all_spellings"
  then show "ToUpper m = ''ALL''"
    by (auto simp: all_spellings_def ToUpper_def upper_char_A upper_char_L)
qed

lemma epsv_all:
  assumes "authed s" "Cmd c = ''EPSV''" "Msg c \<in> all_spellings"
  shows "handle e c s = Reply e 200 ''EPSV ALL ok.'' (s\<lparr>epsvOnly := True\<rparr>)"
  using assms by (simp add: handle_def handlePostAuth_def handle_EPSV_def ToUpper_ALL)

lemma run_epsvOnly: "epsvOnly s \<Longrightarrow> run xs s = Some s' \<Longrightarrow> epsvOnly s'"
proof (induction xs arbitrary: s)
  case Nil
  then show ?case by simp
next
  case (Cons x xs)
  obtain e c where x: "x = (e, c)" by (cases x)
  obtain r s1 where h: "handle e c s = (r, s1)" by (cases "handle e c s")
  with Cons.prems(1) have "epsvOnly s1" using handle_epsvOnly [of s e c] by simp
  then have "epsvOnly (reset_transient c s1)" by simp
  moreover from Cons.prems(2) x h have "run xs (reset_transient c s1) = Some s'"
    by (auto split: option.splits if_splits)
  ultimately show ?case by (rule Cons.IH)
qed

lemma Handle_epsvOnly: "epsvOnly s \<Longrightarrow> epsvOnly (snd (Handle rd xs s))"
proof (induction xs arbitrary: s)
  case Nil
  then show ?case by simp
next
  case (Cons x xs)
  obtain e c where x: "x = (e, c)" by (cases x)
  obtain r s1 where h: "handle e c s = (r, s1)" by (cases "handle e c s")
  with Cons.prems have s1: "epsvOnly s1" using handle_epsvOnly [of s e c] by simp
  then have "epsvOnly (reset_transient c s1)" by simp
  then have "epsvOnly (snd (Handle rd xs (reset_transient c s1)))" by (rule Cons.IH)
  with s1 x h show ?case by (auto split: option.splits)
qed

lemma locked_out:
  assumes "authed s" "epsvOnly s" "Cmd c \<in> {''PASV'', ''PORT'', ''EPRT''}"
  shows "handle e c s = Reply e 550 (Cmd c @ '' is disallowed.'') s"
  using assms
  by (auto simp: handle_def handlePostAuth_def handle_PASV_def handle_PORT_def handle_EPRT_def)

lemma epsv_family:
  assumes "authed s" "Cmd c = ''EPSV''"
    and "(Msg c, nw) \<in> {(''1'', ''tcp4''), (''2'', ''tcp6''), ('''', Addr_Network e)}"
    and "Passive_ret e nw = Inr d"
  shows "handle e c s
     = Reply e 229 (''Entering Extended Passive Mode (|||'' @ FormatInt (Port d) @ ''|)'')
         (emit (EvPassive nw) (s\<lparr>Data := Some d\<rparr>))"
  using assms
  by (auto simp: handle_def handlePostAuth_def handle_EPSV_def epsv_passive_def Passive_def
      ToUpper_ALL all_spellings_def)

text \<open>
  C5. In an authenticated session EPSV with the argument ALL, in any mix of upper and
  lower case (these eight spellings are the arguments that \<^verbatim>\<open>strings.ToUpper\<close> maps to
  \<open>ALL\<close>), sets the passive-only lock and replies 200. Once set, the lock stays set
  through every command, whatever the collaborators answer: after one command, at the
  head of the loop after any number of commands, and when the session ends. While it
  is set, PASV, PORT and EPRT have the reply 550 "... is disallowed." as their only
  effect: nothing is negotiated and the data channel is as it was. EPSV with the
  argument 1, 2 or none still negotiates a passive channel on tcp4, tcp6 or the network
  of the control connection, and replies 229 when the negotiation succeeds.
\<close>

theorem passive_only_lock:
  "(authed s \<and> Cmd c = ''EPSV'' \<and> Msg c \<in> all_spellings \<longrightarrow>
      handle e c s = Reply e 200 ''EPSV ALL ok.'' (s\<lparr>epsvOnly := True\<rparr>)
      \<and> epsvOnly (snd (handle e c s)))
   \<and> (ToUpper m = ''ALL'' \<longleftrightarrow> m \<in> all_spellings)
   \<and> (epsvOnly s \<longrightarrow>
        epsvOnly (snd (handle e c s))
        \<and> (\<forall>s'. run xs s = Some s' \<longrightarrow> epsvOnly s')
        \<and> epsvOnly (snd (Handle rd xs s)))
   \<and> (authed s \<and> epsvOnly s \<and> Cmd c \<in> {''PASV'', ''PORT'', ''EPRT''} \<longrightarrow>
        handle e c s = Reply e 550 (Cmd c @ '' is disallowed.'') s
        \<and> since s (snd (handle e c s)) = [EvReply 550 (Cmd c @ '' is disallowed.'')]
        \<and> Data (snd (handle e c s)) = Data s)
   \<and> (authed s \<and> epsvOnly s \<and> Cmd c = ''EPSV''
        \<and> (Msg c, nw) \<in> {(''1'', ''tcp4''), (''2'', ''tcp6''), ('''', Addr_Network e)}
        \<and> Passive_ret e nw = Inr d \<longrightarrow>
        handle e c s
          = Reply e 229 (''Entering Extended Passive Mode (|||'' @ FormatInt (Port d) @ ''|)'')
              (emit (EvPassive nw) (s\<lparr>Data := Some d\<rparr>)))"
proof (intro conjI impI allI)
  assume "authed s \<and> Cmd c = ''EPSV'' \<and> Msg c \<in> all_spellings"
  then show h: "handle e c s = Reply e 200 ''EPSV ALL ok.'' (s\<lparr>epsvOnly := True\<rparr>)"
    by (simp add: epsv_all)
  then show "epsvOnly (snd (handle e c s))" by (simp add: Reply_def emit_def)
next
  show "ToUpper m = ''ALL'' \<longleftrightarrow> m \<in> all_spellings" by (rule ToUpper_ALL)
next
  assume "epsvOnly s"
  then show "epsvOnly (snd (handle e c s))" by (rule handle_epsvOnly)
next
  fix s'
  assume "epsvOnly s" "run xs s = Some s'"
  then show "epsvOnly s'" by (rule run_epsvOnly)
next
  assume "epsvOnly s"
  then show "epsvOnly (snd (Handle rd xs s))" by (rule Handle_epsvOnly)
next
  assume "authed s \<and> epsvOnly s \<and> Cmd c \<in> {''PASV'', ''PORT'', ''EPRT''}"
  then have h: "handle e c s = Reply e 550 (Cmd c @ '' is disallowed.'') s"
    using locked_out [of s c e] by blast
  then show "handle e c s = Reply e 550 (Cmd c @ '' is disallowed.'') s" .
  from h show "since s (snd (handle e c s)) = [EvReply 550 (Cmd c @ '' is disallowed.'')]"
    by simp
  from h show "Data (snd (handle e c s)) = Data s" by (simp add: Reply_def emit_def)
next
  assume "authed s \<and> epsvOnly s \<and> Cmd c = ''EPSV''
        \<and> (Msg c, nw) \<in> {(''1'', ''tcp4''), (''2'', ''tcp6''), ('''', Addr_Network e)}
        \<and> Passive_ret e nw = Inr d"
  then show "handle e c s
          = Reply e 229 (''Entering Extended Passive Mode (|||'' @ FormatInt (Port d) @ ''|)'')
              (emit (EvPassive nw) (s\<lparr>Data := Some d\<rparr>))"
    using epsv_family [of s c nw e d] by blast
qed

theorem passive_only_lock_witness:
  "epsvOnly (snd (handle calm (cmd ''EPSV'' ''aLl'') logged_in))
   \<and> ToUpper ''aLl'' = ''ALL''
   \<and> epsvOnly (snd (Handle EOF [(calm, cmd ''PASV'' ''''), (calm, cmd ''EPSV'' ''2'')]
                     (logged_in\<lparr>epsvOnly := True\<rparr>)))
   \<and> since (logged_in\<lparr>epsvOnly := True\<rparr>)
        (snd (handle calm (cmd ''PORT'' ''127,0,0,1,8,2'') (logged_in\<lparr>epsvOnly := True\<rparr>)))
      = [EvReply 550 ''PORT is disallowed.'']
   \<and> since (logged_in\<lparr>epsvOnly := True\<rparr>)
        (snd (handle calm (cmd ''EPSV'' ''2'') (logged_in\<lparr>epsvOnly := True\<rparr>)))
      = [EvPassive ''tcp6'', EvReply 229 ''Entering Extended Passive Mode (|||2049|)'']"
proof -
  have "epsvOnly (snd (handle calm (cmd ''EPSV'' ''aLl'') logged_in))"
    using passive_only_lock [where s = logged_in and e = calm and c = "cmd ''EPSV'' ''aLl''",
        THEN conjunct1]
    by (simp add: logged_in_def cmd_def all_spellings_def Reply_def emit_def)
  moreover have "ToUpper ''aLl'' = ''ALL''"
    using passive_only_lock [where m = "''aLl''", THEN conjunct2, THEN conjunct1]
    by (simp add: all_spellings_def)
  moreover have "epsvOnly (snd (Handle EOF [(calm, cmd ''PASV'' ''''), (calm, cmd ''EPSV'' ''2'')]
                     (logged_in\<lparr>epsvOnly := True\<rparr>)))"
    using passive_only_lock [where s = "logged_in\<lparr>epsvOnly := True\<rparr>" and rd = EOF
        and xs = "[(calm, cmd ''PASV'' ''''), (calm, cmd ''EPSV'' ''2'')]",
        THEN conjunct2, THEN conjunct2, THEN conjunct1]
    by simp
  moreover have "since (logged_in\<lparr>epsvOnly := True\<rparr>)
        (snd (handle calm (cmd ''PORT'' ''127,0,0,1,8,2'') (logged_in\<lparr>epsvOnly := True\<rparr>)))
      = [EvReply 550 ''PORT is disallowed.'']"
    using passive_only_lock [where s = "logged_in\<lparr>epsvOnly := True\<rparr>" and e = calm
        and c = "cmd ''PORT'' ''127,0,0,1,8,2''",
        THEN conjunct2, THEN conjunct2, THEN conjunct2, THEN conjunct1]
    by (simp add: logged_in_def cmd_def)
  moreover have "since (logged_in\<lparr>epsvOnly := True\<rparr>)
        (snd (handle calm (cmd ''EPSV'' ''2'') (logged_in\<lparr>epsvOnly := True\<rparr>)))
      = [EvPassive ''tcp6'', EvReply 229 ''Entering Extended Passive Mode (|||2049|)'']"
    using passive_only_lock [where s = "logged_in\<lparr>epsvOnly := True\<rparr>" and e = calm
        and c = "cmd ''EPSV'' ''2''" and nw = "''tcp6''"
        and d = "\<lparr>HostPort = ''127,0,0,1,8,1'', Port = 2049\<rparr>",
        THEN conjunct2, THEN conjunct2, THEN conjunct2, THEN conjunct2]
    by (simp add: logged_in_def new_session_def cmd_def calm_def since_def emit_def Reply_def
        FormatInt_samples)
  ultimately show ?thesis by simp
qed

section \<open>Transfers without a data channel\<close>

lemma no_channel_reply:
  assumes "authed s" "Data s = None" "Cmd c \<in> {''RETR'', ''STOR'', ''LIST'', ''NLST''}"
  shows "handle e c s = Reply e 425 ''Use PORT or PASV first.'' s"
  using assms
  by (auto simp: handle_def handlePostAuth_def handle_RETR_def handle_STOR_def handle_LIST_def
      no_channel)

text \<open>
  C6. In an authenticated session with no data channel, RETR, STOR, LIST and NLST have
  the reply 425 "Use PORT or PASV first." as their only effect: no file is opened or
  created, and no reply has the code 550. The other way round, with a data channel, an
  error of the filesystem at the open or create is answered with the one reply 550,
  never 425.
\<close>

theorem transfer_needs_channel:
  "authed s \<and> Cmd c \<in> {''RETR'', ''STOR'', ''LIST'', ''NLST''} \<longrightarrow>
     (Data s = None \<longrightarrow>
        handle e c s = Reply e 425 ''Use PORT or PASV first.'' s
        \<and> since s (snd (handle e c s)) = [EvReply 425 ''Use PORT or PASV first.'']
        \<and> filter is_open (since s (snd (handle e c s))) = []
        \<and> 550 \<notin> set (reply_codes (since s (snd (handle e c s)))))
     \<and> (Data s \<noteq> None \<and> fs_answer e c s = Some err \<and> err \<noteq> errNoDataConn \<longrightarrow>
        reply_codes (since s (snd (handle e c s))) = [550])"
proof (intro impI conjI)
  assume a: "authed s \<and> Cmd c \<in> {''RETR'', ''STOR'', ''LIST'', ''NLST''}"
  {
    assume "Data s = None"
    with a have h: "handle e c s = Reply e 425 ''Use PORT or PASV first.'' s"
      using no_channel_reply [of s c e] by blast
    then show "handle e c s = Reply e 425 ''Use PORT or PASV first.'' s" .
    from h show "since s (snd (handle e c s)) = [EvReply 425 ''Use PORT or PASV first.'']"
      by simp
    from h show "filter is_open (since s (snd (handle e c s))) = []" by simp
    from h show "550 \<notin> set (reply_codes (since s (snd (handle e c s))))" by simp
  }
  {
    assume "Data s \<noteq> None \<and> fs_answer e c s = Some err \<and> err \<noteq> errNoDataConn"
    with a show "reply_codes (since s (snd (handle e c s))) = [550]"
      using open_failure_codes [of s c e err] by blast
  }
qed

theorem transfer_needs_channel_witness:
  "since logged_in (snd (handle calm (cmd ''RETR'' ''f'') logged_in))
     = [EvReply 425 ''Use PORT or PASV first.'']
   \<and> since logged_in (snd (handle calm (cmd ''NLST'' ''-l'') logged_in))
     = [EvReply 425 ''Use PORT or PASV first.'']
   \<and> reply_codes (since with_data (snd (handle no_file (cmd ''RETR'' ''f'') with_data)))
     = [550]"
proof -
  have "since logged_in (snd (handle calm (cmd ''RETR'' ''f'') logged_in))
     = [EvReply 425 ''Use PORT or PASV first.'']"
    using transfer_needs_channel [where s = logged_in and e = calm
        and c = "cmd ''RETR'' ''f''"]
    by (simp add: logged_in_def new_session_def cmd_def)
  moreover have "since logged_in (snd (handle calm (cmd ''NLST'' ''-l'') logged_in))
     = [EvReply 425 ''Use PORT or PASV first.'']"
    using transfer_needs_channel [where s = logged_in and e = calm
        and c = "cmd ''NLST'' ''-l''"]
    by (simp add: logged_in_def new_session_def cmd_def)
  moreover have "reply_codes (since with_data (snd (handle no_file (cmd ''RETR'' ''f'') with_data)))
     = [550]"
    using transfer_needs_channel [where s = with_data and e = no_file
        and c = "cmd ''RETR'' ''f''" and err = "NotExist ''file does not exist''"]
    by (simp add: with_data_def logged_in_def new_session_def cmd_def fs_answer_def
        target_def Path_def no_file_def calm_def)
  ultimately show ?thesis by simp
qed

section \<open>Filesystem errors and their replies\<close>

lemma classified_failure:
  assumes a: "authed s" "reaches_fs c s"
    and m: "Cmd c \<in> {''RETR'', ''LIST'', ''NLST'', ''DELE'', ''RMD'', ''RNTO'', ''CWD'', ''CDUP'',
                 ''SIZE'', ''MDTM''}"
    and f: "fs_answer e c s = Some err"
    and k: "isPermission (Some err) \<or> isNotExist (Some err)"
  shows "last_event (snd (handle e c s)) =
     Some (EvReply 550
       (if isPermission (Some err) then ''Insufficient permissions.''
        else not_found_text (Cmd c)))"
proof -
  from k have sentinel: "err \<noteq> errNoDataConn" by auto
  from m consider (retr) "Cmd c = ''RETR''" | (list) "Cmd c = ''LIST''" | (nlst) "Cmd c = ''NLST''"
    | (dele) "Cmd c = ''DELE''" | (rmd) "Cmd c = ''RMD''" | (rnto) "Cmd c = ''RNTO''"
    | (cwd) "Cmd c = ''CWD''" | (cdup) "Cmd c = ''CDUP''" | (size) "Cmd c = ''SIZE''"
    | (mdtm) "Cmd c = ''MDTM''"
    by auto
  then show ?thesis
  proof cases
    case retr
    from a f retr have d: "Data s \<noteq> None" and op: "Open_ret e (Path e s (Msg c)) = Some err"
      by (simp_all add: reaches_fs_def fs_answer_def target_def)
    from retr_open_failure [OF a(1) d retr op sentinel] k retr show ?thesis
      by (auto simp: not_found_text_def)
  next
    case list
    from a f list have d: "Data s \<noteq> None"
      and op: "Open_ret e (Path e s (stripListFlags (Msg c))) = Some err"
      by (simp_all add: reaches_fs_def fs_answer_def target_def)
    from list have l: "Cmd c = ''LIST'' \<or> Cmd c = ''NLST''" by simp
    from list_open_failure [OF a(1) d l op sentinel] k list show ?thesis
      by (auto simp: not_found_text_def)
  next
    case nlst
    from a f nlst have d: "Data s \<noteq> None"
      and op: "Open_ret e (Path e s (stripListFlags (Msg c))) = Some err"
      by (simp_all add: reaches_fs_def fs_answer_def target_def)
    from nlst have l: "Cmd c = ''LIST'' \<or> Cmd c = ''NLST''" by simp
    from list_open_failure [OF a(1) d l op sentinel] k nlst show ?thesis
      by (auto simp: not_found_text_def)
  next
    case dele
    from a f dele have ne: "Msg c \<noteq> []" and rm: "Remove_ret e (Path e s (Msg c)) = Some err"
      by (simp_all add: reaches_fs_def fs_answer_def target_def)
    from dele have l: "Cmd c = ''DELE'' \<or> Cmd c = ''RMD''" by simp
    from dele_failure [OF a(1) l ne rm] k dele show ?thesis
      by (auto simp: not_found_text_def)
  next
    case rmd
    from a f rmd have ne: "Msg c \<noteq> []" and rm: "Remove_ret e (Path e s (Msg c)) = Some err"
      by (simp_all add: reaches_fs_def fs_answer_def target_def)
    from rmd have l: "Cmd c = ''DELE'' \<or> Cmd c = ''RMD''" by simp
    from dele_failure [OF a(1) l ne rm] k rmd show ?thesis
      by (auto simp: not_found_text_def)
  next
    case rnto
    from a f rnto have ne: "Msg c \<noteq> []" "renaming s \<noteq> []"
      and rn: "Rename_ret e (renaming s) (Path e s (Msg c)) = Some err"
      by (simp_all add: reaches_fs_def fs_answer_def target_def)
    from rnto_failure [OF a(1) rnto ne rn] k rnto show ?thesis
      by (auto simp: not_found_text_def)
  next
    case cwd
    from a f cwd have ne: "Msg c \<noteq> []" and st: "Stat_ret e (Path e s (Msg c)) = Inl err"
      by (simp_all add: reaches_fs_def fs_answer_def target_def err_of_def split: sum.splits)
    from cwd_failure [OF a(1) cwd ne st] k cwd show ?thesis
      by (auto simp: not_found_text_def)
  next
    case cdup
    from a f cdup have st: "Stat_ret e (Path e s ''..'') = Inl err"
      by (simp_all add: fs_answer_def target_def err_of_def split: sum.splits)
    from cdup_failure [OF a(1) cdup st] k cdup show ?thesis
      by (auto simp: not_found_text_def)
  next
    case size
    from a f size have st: "Stat_ret e (Path e s (Msg c)) = Inl err"
      by (simp_all add: fs_answer_def target_def err_of_def split: sum.splits)
    from size_failure [OF a(1) size st] k size show ?thesis
      by (auto simp: not_found_text_def)
  next
    case mdtm
    from a f mdtm have st: "Stat_ret e (Path e s (Msg c)) = Inl err"
      by (simp_all add: fs_answer_def target_def err_of_def split: sum.splits)
    from mdtm_failure [OF a(1) mdtm st] k mdtm show ?thesis
      by (auto simp: not_found_text_def)
  qed
qed

lemma stor_failure:
  assumes "authed s" "Data s \<noteq> None" "Cmd c = ''STOR''" "fs_answer e c s = Some err"
    and "isPermission (Some err) \<or> isNotExist (Some err)"
  shows "last_event (snd (handle e c s)) =
     Some (EvReply 550
       (if isPermission (Some err) then ''Insufficient permissions.''
        else ''Error storing file.''))"
proof -
  from assms(5) have sentinel: "err \<noteq> errNoDataConn" by auto
  from assms(3,4) have cr: "Create_ret e (Path e s (Msg c)) = Some err"
    by (simp add: fs_answer_def target_def)
  from stor_create_failure [OF assms(1,2,3) cr sentinel] show ?thesis by simp
qed

lemma mkd_any_failure:
  assumes "authed s" "Cmd c = ''MKD''" "fs_answer e c s = Some err"
  shows "last_event (snd (handle e c s)) = Some (EvReply 550 ''Failed to create directory.'')"
proof -
  from assms(2,3) have "Mkdir_ret e (Path e s (Msg c)) = Some err"
    by (simp add: fs_answer_def target_def)
  from mkd_failure [OF assms(1,2) this] show ?thesis by simp
qed

text \<open>
  C7, as the code has it. In an authenticated session, once the command has passed its
  own checks and called the filesystem: for RETR, LIST, NLST, DELE, RMD, RNTO, CWD,
  CDUP, SIZE and MDTM a permission error is answered last with 550 "Insufficient
  permissions." and a not-found error with 550 and the not-found wording of the
  command; for STOR a permission error is answered with 550 "Insufficient
  permissions." and a not-found error with 550 "Error storing file."; for MKD every
  error is answered with 550 "Failed to create directory.".
\<close>

theorem filesystem_error_replies:
  "authed s \<and> reaches_fs c s \<longrightarrow>
     (Cmd c \<in> {''RETR'', ''LIST'', ''NLST'', ''DELE'', ''RMD'', ''RNTO'', ''CWD'', ''CDUP'',
               ''SIZE'', ''MDTM''} \<and> fs_answer e c s = Some (Permission m) \<longrightarrow>
        last_event (snd (handle e c s)) = Some (EvReply 550 ''Insufficient permissions.''))
     \<and> (Cmd c \<in> {''RETR'', ''LIST'', ''NLST'', ''DELE'', ''RMD'', ''RNTO'', ''CWD'', ''CDUP'',
               ''SIZE'', ''MDTM''} \<and> fs_answer e c s = Some (NotExist m) \<longrightarrow>
        last_event (snd (handle e c s)) = Some (EvReply 550 (not_found_text (Cmd c))))
     \<and> (Cmd c = ''STOR'' \<and> fs_answer e c s = Some (Permission m) \<longrightarrow>
        last_event (snd (handle e c s)) = Some (EvReply 550 ''Insufficient permissions.''))
     \<and> (Cmd c = ''STOR'' \<and> fs_answer e c s = Some (NotExist m) \<longrightarrow>
        last_event (snd (handle e c s)) = Some (EvReply 550 ''Error storing file.''))
     \<and> (Cmd c = ''MKD'' \<and> fs_answer e c s = Some err \<longrightarrow>
        last_event (snd (handle e c s)) = Some (EvReply 550 ''Failed to create directory.''))"
proof (intro impI conjI)
  assume a: "authed s \<and> reaches_fs c s"
  {
    assume b: "Cmd c \<in> {''RETR'', ''LIST'', ''NLST'', ''DELE'', ''RMD'', ''RNTO'', ''CWD'', ''CDUP'',
               ''SIZE'', ''MDTM''} \<and> fs_answer e c s = Some (Permission m)"
    from a b classified_failure [of s c e "Permission m"]
    show "last_event (snd (handle e c s)) = Some (EvReply 550 ''Insufficient permissions.'')"
      by simp
  }
  {
    assume b: "Cmd c \<in> {''RETR'', ''LIST'', ''NLST'', ''DELE'', ''RMD'', ''RNTO'', ''CWD'', ''CDUP'',
               ''SIZE'', ''MDTM''} \<and> fs_answer e c s = Some (NotExist m)"
    from a b classified_failure [of s c e "NotExist m"]
    show "last_event (snd (handle e c s)) = Some (EvReply 550 (not_found_text (Cmd c)))"
      by simp
  }
  {
    assume b: "Cmd c = ''STOR'' \<and> fs_answer e c s = Some (Permission m)"
    with a have "Data s \<noteq> None" by (simp add: reaches_fs_def)
    with a b stor_failure [of s c e "Permission m"]
    show "last_event (snd (handle e c s)) = Some (EvReply 550 ''Insufficient permissions.'')"
      by simp
  }
  {
    assume b: "Cmd c = ''STOR'' \<and> fs_answer e c s = Some (NotExist m)"
    with a have "Data s \<noteq> None" by (simp add: reaches_fs_def)
    with a b stor_failure [of s c e "NotExist m"]
    show "last_event (snd (handle e c s)) = Some (EvReply 550 ''Error storing file.'')"
      by simp
  }
  {
    assume b: "Cmd c = ''MKD'' \<and> fs_answer e c s = Some err"
    with a mkd_any_failure [of s c e err]
    show "last_event (snd (handle e c s)) = Some (EvReply 550 ''Failed to create directory.'')"
      by simp
  }
qed

theorem filesystem_error_replies_witness:
  "last_event (snd (handle no_access (cmd ''CWD'' ''d'') logged_in))
     = Some (EvReply 550 ''Insufficient permissions.'')
   \<and> last_event (snd (handle no_file (cmd ''RETR'' ''f'') with_data))
     = Some (EvReply 550 ''No such file.'')
   \<and> last_event (snd (handle no_parent (cmd ''STOR'' ''d/f'') with_data))
     = Some (EvReply 550 ''Error storing file.'')
   \<and> last_event (snd (handle no_mkdir (cmd ''MKD'' ''d'') logged_in))
     = Some (EvReply 550 ''Failed to create directory.'')"
proof -
  have "last_event (snd (handle no_access (cmd ''CWD'' ''d'') logged_in))
     = Some (EvReply 550 ''Insufficient permissions.'')"
    using filesystem_error_replies [where s = logged_in and e = no_access
        and c = "cmd ''CWD'' ''d''" and m = "''permission denied''", THEN mp, THEN conjunct1]
    by (simp add: logged_in_def new_session_def cmd_def reaches_fs_def fs_answer_def
        target_def Path_def err_of_def no_access_def calm_def)
  moreover have "last_event (snd (handle no_file (cmd ''RETR'' ''f'') with_data))
     = Some (EvReply 550 ''No such file.'')"
    using filesystem_error_replies [where s = with_data and e = no_file
        and c = "cmd ''RETR'' ''f''" and m = "''file does not exist''",
        THEN mp, THEN conjunct2, THEN conjunct1]
    by (simp add: with_data_def logged_in_def new_session_def cmd_def reaches_fs_def
        fs_answer_def target_def Path_def no_file_def calm_def not_found_text_def)
  moreover have "last_event (snd (handle no_parent (cmd ''STOR'' ''d/f'') with_data))
     = Some (EvReply 550 ''Error storing file.'')"
    using filesystem_error_replies [where s = with_data and e = no_parent
        and c = "cmd ''STOR'' ''d/f''" and m = "''no such file or directory''",
        THEN mp, THEN conjunct2, THEN conjunct2, THEN conjunct2, THEN conjunct1]
    by (simp add: with_data_def logged_in_def new_session_def cmd_def reaches_fs_def
        fs_answer_def target_def Path_def no_parent_def calm_def)
  moreover have "last_event (snd (handle no_mkdir (cmd ''MKD'' ''d'') logged_in))
     = Some (EvReply 550 ''Failed to create directory.'')"
    using filesystem_error_replies [where s = logged_in and e = no_mkdir
        and c = "cmd ''MKD'' ''d''" and err = "Permission ''permission denied''",
        THEN mp, THEN conjunct2, THEN conjunct2, THEN conjunct2, THEN conjunct2]
    by (simp add: logged_in_def new_session_def cmd_def reaches_fs_def fs_answer_def
        target_def Path_def no_mkdir_def calm_def)
  ultimately show ?thesis by simp
qed

theorem mkd_permission_denied:
  "authed logged_in
   \<and> fs_answer no_mkdir (cmd ''MKD'' ''d'') logged_in = Some (Permission ''permission denied'')
   \<and> last_event (snd (handle no_mkdir (cmd ''MKD'' ''d'') logged_in))
       = Some (EvReply 550 ''Failed to create directory.'')
   \<and> authed with_data \<and> Data with_data \<noteq> None
   \<and> fs_answer no_parent (cmd ''STOR'' ''d/f'') with_data
       = Some (NotExist ''no such file or directory'')
   \<and> last_event (snd (handle no_parent (cmd ''STOR'' ''d/f'') with_data))
       = Some (EvReply 550 ''Error storing file.'')"
  by (simp add: with_data_def logged_in_def new_session_def cmd_def fs_answer_def target_def
      Path_def no_mkdir_def no_parent_def calm_def handle_def handlePostAuth_def
      handle_MKD_def handle_STOR_def store_def Let_def Create_def CloseData_def Reply_def
      emit_def last_event_def)

section \<open>Cleaning up after a transfer\<close>

lemma retrieve_closes:
  "Data s \<noteq> None \<Longrightarrow> p = Path e s (Msg c) \<Longrightarrow>
     filter is_open (since s (snd (retrieve e c s))) = [EvOpen p]
     \<and> filter is_close (since s (snd (retrieve e c s)))
         = (if Open_ret e p = None then [EvFileClose p, EvCloseData] else [EvCloseData])"
  by (simp add: retrieve_log)

lemma store_closes:
  "Data s \<noteq> None \<Longrightarrow> p = Path e s (Msg c) \<Longrightarrow>
     filter is_open (since s (snd (store e c s))) = [EvCreate p]
     \<and> filter is_close (since s (snd (store e c s)))
         = (if Create_ret e p = None then [EvFileClose p, EvCloseData] else [EvCloseData])"
  by (simp add: store_log)

lemma list_closes:
  "Data s \<noteq> None \<Longrightarrow> p = Path e s (stripListFlags (Msg c)) \<Longrightarrow>
     filter is_open (since s (snd (list_cmd e c s))) = [EvOpen p]
     \<and> filter is_close (since s (snd (list_cmd e c s)))
         = (if Open_ret e p = None then [EvFileClose p, EvCloseData] else [EvCloseData])"
  by (simp add: list_log)

text \<open>
  C8, as the code has it. RETR, STOR, LIST and NLST with a data channel open or create
  exactly one file; on every path they close the data channel exactly once and, when
  the file was opened, close the file exactly once before it. The error returned is the
  first error among the open or create, the reply 150, the seek and the copy or
  listing; when none of these fails, RETR, LIST and NLST return what closing the data
  channel returns (what closing the file returns is dropped) and STOR returns what
  closing the file returns (what closing the data channel returns is dropped).
\<close>

theorem transfer_cleanup:
  "Data s \<noteq> None \<and> p = Path e s (Msg c) \<and> q = Path e s (stripListFlags (Msg c)) \<longrightarrow>
     fst (retrieve e c s)
       = first_error [Open_ret e p, Reply_ret e 150 ''Here comes the file.'',
           seek_answer e p s, CopyToData_ret e p, CloseData_ret e]
     \<and> filter is_open (since s (snd (retrieve e c s))) = [EvOpen p]
     \<and> filter is_close (since s (snd (retrieve e c s)))
         = (if Open_ret e p = None then [EvFileClose p, EvCloseData] else [EvCloseData])
     \<and> fst (store e c s)
       = first_error [Create_ret e p, Reply_ret e 150 ''Awaiting file data.'',
           seek_answer e p s, CopyFromData_ret e p, FileClose_ret e p]
     \<and> filter is_open (since s (snd (store e c s))) = [EvCreate p]
     \<and> filter is_close (since s (snd (store e c s)))
         = (if Create_ret e p = None then [EvFileClose p, EvCloseData] else [EvCloseData])
     \<and> fst (list_cmd e c s)
       = first_error [Open_ret e q, Reply_ret e 150 ''Here comes the list.'',
           ListWrite_ret e (Cmd c) q, CloseData_ret e]
     \<and> filter is_open (since s (snd (list_cmd e c s))) = [EvOpen q]
     \<and> filter is_close (since s (snd (list_cmd e c s)))
         = (if Open_ret e q = None then [EvFileClose q, EvCloseData] else [EvCloseData])"
proof (intro impI)
  assume a: "Data s \<noteq> None \<and> p = Path e s (Msg c) \<and> q = Path e s (stripListFlags (Msg c))"
  then have d: "Data s \<noteq> None" and p: "p = Path e s (Msg c)"
    and q: "q = Path e s (stripListFlags (Msg c))"
    by simp_all
  note r = retrieve_closes [OF d p, of] store_closes [OF d p] list_closes [OF d q]
  have 1: "fst (retrieve e c s)
       = first_error [Open_ret e p, Reply_ret e 150 ''Here comes the file.'',
           seek_answer e p s, CopyToData_ret e p, CloseData_ret e]"
    unfolding p by (rule retrieve_result [OF d])
  have 2: "fst (store e c s)
       = first_error [Create_ret e p, Reply_ret e 150 ''Awaiting file data.'',
           seek_answer e p s, CopyFromData_ret e p, FileClose_ret e p]"
    unfolding p by (rule store_result [OF d])
  have 3: "fst (list_cmd e c s)
       = first_error [Open_ret e q, Reply_ret e 150 ''Here comes the list.'',
           ListWrite_ret e (Cmd c) q, CloseData_ret e]"
    unfolding q by (rule list_result [OF d])
  from 1 2 3 r
  show "fst (retrieve e c s)
       = first_error [Open_ret e p, Reply_ret e 150 ''Here comes the file.'',
           seek_answer e p s, CopyToData_ret e p, CloseData_ret e]
     \<and> filter is_open (since s (snd (retrieve e c s))) = [EvOpen p]
     \<and> filter is_close (since s (snd (retrieve e c s)))
         = (if Open_ret e p = None then [EvFileClose p, EvCloseData] else [EvCloseData])
     \<and> fst (store e c s)
       = first_error [Create_ret e p, Reply_ret e 150 ''Awaiting file data.'',
           seek_answer e p s, CopyFromData_ret e p, FileClose_ret e p]
     \<and> filter is_open (since s (snd (store e c s))) = [EvCreate p]
     \<and> filter is_close (since s (snd (store e c s)))
         = (if Create_ret e p = None then [EvFileClose p, EvCloseData] else [EvCloseData])
     \<and> fst (list_cmd e c s)
       = first_error [Open_ret e q, Reply_ret e 150 ''Here comes the list.'',
           ListWrite_ret e (Cmd c) q, CloseData_ret e]
     \<and> filter is_open (since s (snd (list_cmd e c s))) = [EvOpen q]
     \<and> filter is_close (since s (snd (list_cmd e c s)))
         = (if Open_ret e q = None then [EvFileClose q, EvCloseData] else [EvCloseData])"
    by blast
qed

theorem transfer_cleanup_witness:
  "fst (retrieve bad_seek (cmd ''RETR'' ''f'') (with_data\<lparr>restart := 5\<rparr>))
     = Some (Other ''seek failed'')
   \<and> filter is_close (since (with_data\<lparr>restart := 5\<rparr>)
        (snd (retrieve bad_seek (cmd ''RETR'' ''f'') (with_data\<lparr>restart := 5\<rparr>))))
     = [EvFileClose ''/f'', EvCloseData]
   \<and> filter is_close (since with_data (snd (list_cmd no_file (cmd ''LIST'' ''-l'') with_data)))
     = [EvCloseData]
   \<and> fst (store bad_close (cmd ''STOR'' ''f'') with_data) = Some (Other ''close failed'')"
  using transfer_cleanup [where s = "with_data\<lparr>restart := 5\<rparr>" and e = bad_seek
      and c = "cmd ''RETR'' ''f''" and p = "''/f''" and q = "''/f''"]
    transfer_cleanup [where s = with_data and e = no_file
      and c = "cmd ''LIST'' ''-l''" and p = "''/-l''" and q = "''/''"]
    transfer_cleanup [where s = with_data and e = bad_close
      and c = "cmd ''STOR'' ''f''" and p = "''/f''" and q = "''/f''"]
  by (simp add: with_data_def logged_in_def new_session_def cmd_def Path_def calm_def
      bad_seek_def no_file_def bad_close_def seek_answer_def stripListFlags_def Split.simps
      HasPrefix_def)

theorem close_error_dropped:
  "since with_data (snd (retrieve bad_close (cmd ''RETR'' ''f'') with_data))
     = [EvOpen ''/f'', EvReply 150 ''Here comes the file.'', EvCopyToData ''/f'',
        EvFileClose ''/f'', EvCloseData]
   \<and> FileClose_ret bad_close ''/f'' = Some (Other ''close failed'')
   \<and> fst (retrieve bad_close (cmd ''RETR'' ''f'') with_data) = None
   \<and> since with_data (snd (store bad_hangup (cmd ''STOR'' ''f'') with_data))
     = [EvCreate ''/f'', EvReply 150 ''Awaiting file data.'', EvCopyFromData ''/f'',
        EvFileClose ''/f'', EvCloseData]
   \<and> CloseData_ret bad_hangup = Some (Other ''hangup failed'')
   \<and> fst (store bad_hangup (cmd ''STOR'' ''f'') with_data) = None"
  by (simp add: with_data_def logged_in_def new_session_def cmd_def calm_def bad_close_def
      bad_hangup_def retrieve_def store_def transfer_defs)

section \<open>SIZE and MDTM\<close>

lemma is_digit_digit_char: "d < 10 \<Longrightarrow> is_digit (digit_char d)"
  by (simp add: is_digit_def digit_char_def less_eq_char_def)

lemma digits_all_digits: "list_all is_digit (digits n)"
proof (induction n rule: digits.induct)
  case (1 n)
  show ?case
  proof (cases "n < 10")
    case True
    then show ?thesis by (simp add: digits.simps [of n] is_digit_digit_char)
  next
    case False
    with "1.IH" have "list_all is_digit (digits (n div 10))" by simp
    moreover have "is_digit (digit_char (n mod 10))" by (simp add: is_digit_digit_char)
    ultimately show ?thesis using False by (simp add: digits.simps [of n])
  qed
qed

lemma digits_length: "n < 10 ^ k \<Longrightarrow> 0 < k \<Longrightarrow> length (digits n) \<le> k"
proof (induction k arbitrary: n)
  case 0
  then show ?case by simp
next
  case (Suc k)
  show ?case
  proof (cases "n < 10")
    case True
    then show ?thesis by (simp add: digits.simps [of n])
  next
    case False
    with Suc.prems have k: "0 < k" by (cases k) auto
    from Suc.prems have "n div 10 < 10 ^ k" by (simp add: less_mult_imp_div_less mult.commute)
    from Suc.IH [OF this k] have "length (digits (n div 10)) \<le> k" .
    with False show ?thesis by (simp add: digits.simps [of n])
  qed
qed

lemma pad_length: "n < 10 ^ w \<Longrightarrow> 0 < w \<Longrightarrow> length (pad w n) = w"
  using digits_length [of n w] by (simp add: pad_def)

lemma pad_all_digits: "list_all is_digit (pad w n)"
  using digits_all_digits [of n] by (auto simp: pad_def list_all_iff is_digit_def)

lemma mdtmFormat_shape:
  assumes "four_digit_year t"
  shows "length (mdtmFormat t) = 14 \<and> list_all is_digit (mdtmFormat t)"
proof -
  from assms have y0: "0 \<le> Year t" and y1: "Year t \<le> 9999"
    and r: "Month t < 10 ^ 2" "Day t < 10 ^ 2" "Hour t < 10 ^ 2" "Minute t < 10 ^ 2"
      "Second t < 10 ^ 2"
    by (simp_all add: four_digit_year_def)
  from y0 y1 have "nat (Year t) < 10000" by linarith
  then have "nat (Year t) < 10 ^ 4" by simp
  with y0 have y: "0 \<le> Year t" "nat (Year t) < 10 ^ 4" by simp_all
  from y r have "length (mdtmFormat t) = 14"
    by (simp add: mdtmFormat_def pad_length)
  moreover from y have "list_all is_digit (mdtmFormat t)"
    by (simp add: mdtmFormat_def pad_all_digits)
  ultimately show ?thesis by simp
qed

lemma size_found:
  assumes "authed s" "Cmd c = ''SIZE''" "Stat_ret e (Path e s (Msg c)) = Inr st"
  shows "handle e c s =
     (if IsDir st then Reply e 550 ''Path specifies a directory.''
                         (snd (Stat e (Path e s (Msg c)) s))
      else Reply e 213 (FormatInt (Size st)) (snd (Stat e (Path e s (Msg c)) s)))"
  using assms
  by (simp add: handle_def handlePostAuth_def handle_SIZE_def Stat_def err_of_def)

lemma mdtm_found:
  assumes "authed s" "Cmd c = ''MDTM''" "Stat_ret e (Path e s (Msg c)) = Inr st"
  shows "handle e c s =
     (if IsDir st then Reply e 550 ''Could not get size.'' (snd (Stat e (Path e s (Msg c)) s))
      else Reply e 213 (mdtmFormat (ModTime st)) (snd (Stat e (Path e s (Msg c)) s)))"
  using assms
  by (simp add: handle_def handlePostAuth_def handle_MDTM_def Stat_def err_of_def)

lemma stat_missing:
  assumes "authed s" "Cmd c \<in> {''SIZE'', ''MDTM''}" "Stat_ret e (Path e s (Msg c)) = Inl err"
  shows "reply_codes (since s (snd (handle e c s))) = [550]"
proof (cases "Cmd c = ''SIZE''")
  case True
  from size_failure [OF assms(1) True assms(3)] show ?thesis
    by (simp add: since_def Reply_def Stat_def emit_def)
next
  case False
  with assms(2) have m: "Cmd c = ''MDTM''" by simp
  from mdtm_failure [OF assms(1) m assms(3)] show ?thesis
    by (simp add: since_def Reply_def Stat_def emit_def)
qed

text \<open>
  C9, as the code has it. In an authenticated session SIZE and MDTM look the resolved
  path up with one call of Stat. When Stat fails the only reply is a 550. When the
  path exists and is a directory both refuse: SIZE with 550 "Path specifies a
  directory." and MDTM with 550 "Could not get size.". When the path exists and is not
  a directory SIZE replies 213 with the size in decimal and MDTM replies 213 with the
  modification time in the layout 20060102150405; for a time whose year is between 0
  and 9999 that text is fourteen characters, all of them decimal digits.
\<close>

theorem size_and_mdtm:
  "authed s \<and> Cmd c \<in> {''SIZE'', ''MDTM''} \<longrightarrow>
     (Stat_ret e (Path e s (Msg c)) = Inl err \<longrightarrow>
        reply_codes (since s (snd (handle e c s))) = [550])
     \<and> (Stat_ret e (Path e s (Msg c)) = Inr st \<and> IsDir st \<longrightarrow>
        handle e c s =
          Reply e 550
            (if Cmd c = ''SIZE'' then ''Path specifies a directory.''
             else ''Could not get size.'')
            (snd (Stat e (Path e s (Msg c)) s)))
     \<and> (Stat_ret e (Path e s (Msg c)) = Inr st \<and> \<not> IsDir st \<longrightarrow>
        handle e c s =
          Reply e 213
            (if Cmd c = ''SIZE'' then FormatInt (Size st) else mdtmFormat (ModTime st))
            (snd (Stat e (Path e s (Msg c)) s))
        \<and> (four_digit_year (ModTime st) \<longrightarrow>
             length (mdtmFormat (ModTime st)) = 14
             \<and> list_all is_digit (mdtmFormat (ModTime st))))"
proof (intro impI conjI)
  assume a: "authed s \<and> Cmd c \<in> {''SIZE'', ''MDTM''}"
  {
    assume "Stat_ret e (Path e s (Msg c)) = Inl err"
    with a show "reply_codes (since s (snd (handle e c s))) = [550]"
      using stat_missing [of s c e err] by blast
  }
  {
    assume b: "Stat_ret e (Path e s (Msg c)) = Inr st \<and> IsDir st"
    show "handle e c s =
          Reply e 550
            (if Cmd c = ''SIZE'' then ''Path specifies a directory.''
             else ''Could not get size.'')
            (snd (Stat e (Path e s (Msg c)) s))"
    proof (cases "Cmd c = ''SIZE''")
      case True
      with a b size_found [of s c e st] show ?thesis by simp
    next
      case False
      with a have "Cmd c = ''MDTM''" by simp
      with a b False mdtm_found [of s c e st] show ?thesis by simp
    qed
  }
  {
    assume b: "Stat_ret e (Path e s (Msg c)) = Inr st \<and> \<not> IsDir st"
    show "handle e c s =
          Reply e 213
            (if Cmd c = ''SIZE'' then FormatInt (Size st) else mdtmFormat (ModTime st))
            (snd (Stat e (Path e s (Msg c)) s))"
    proof (cases "Cmd c = ''SIZE''")
      case True
      with a b size_found [of s c e st] show ?thesis by simp
    next
      case False
      with a have "Cmd c = ''MDTM''" by simp
      with a b False mdtm_found [of s c e st] show ?thesis by simp
    qed
    assume "four_digit_year (ModTime st)"
    then show "length (mdtmFormat (ModTime st)) = 14"
      and "list_all is_digit (mdtmFormat (ModTime st))"
      by (simp_all add: mdtmFormat_shape)
  }
qed

lemma mdtmFormat_noon: "mdtmFormat noon = ''20240229120007''"
  by (simp add: mdtmFormat_def noon_def pad_def digits.simps digit_char_simps)

theorem size_and_mdtm_witness:
  "since logged_in (snd (handle calm (cmd ''MDTM'' ''f'') logged_in))
     = [EvStat ''/f'', EvReply 213 ''20240229120007'']
   \<and> length (mdtmFormat noon) = 14 \<and> list_all is_digit (mdtmFormat noon)
   \<and> since logged_in (snd (handle calm (cmd ''SIZE'' ''f'') logged_in))
     = [EvStat ''/f'', EvReply 213 ''3'']
   \<and> since logged_in (snd (handle all_dirs (cmd ''SIZE'' ''d'') logged_in))
     = [EvStat ''/d'', EvReply 550 ''Path specifies a directory.'']
   \<and> reply_codes (since logged_in (snd (handle no_access (cmd ''MDTM'' ''f'') logged_in)))
     = [550]"
proof -
  have f: "four_digit_year noon" by (simp add: four_digit_year_def noon_def)
  have n: "FormatInt 3 = ''3''"
    by (simp add: FormatInt_def digits.simps digit_char_simps)
  have "since logged_in (snd (handle calm (cmd ''MDTM'' ''f'') logged_in))
     = [EvStat ''/f'', EvReply 213 ''20240229120007'']
   \<and> length (mdtmFormat noon) = 14 \<and> list_all is_digit (mdtmFormat noon)"
    using size_and_mdtm [where s = logged_in and e = calm and c = "cmd ''MDTM'' ''f''"
        and st = "\<lparr>IsDir = False, Size = 3, ModTime = noon\<rparr>",
        THEN mp, THEN conjunct2, THEN conjunct2] f
    by (simp add: logged_in_def new_session_def cmd_def calm_def Path_def Stat_def
        Reply_def emit_def since_def mdtmFormat_noon)
  moreover have "since logged_in (snd (handle calm (cmd ''SIZE'' ''f'') logged_in))
     = [EvStat ''/f'', EvReply 213 ''3'']"
    using size_and_mdtm [where s = logged_in and e = calm and c = "cmd ''SIZE'' ''f''"
        and st = "\<lparr>IsDir = False, Size = 3, ModTime = noon\<rparr>",
        THEN mp, THEN conjunct2, THEN conjunct2] n
    by (simp add: logged_in_def new_session_def cmd_def calm_def Path_def Stat_def
        Reply_def emit_def since_def)
  moreover have "since logged_in (snd (handle all_dirs (cmd ''SIZE'' ''d'') logged_in))
     = [EvStat ''/d'', EvReply 550 ''Path specifies a directory.'']"
    using size_and_mdtm [where s = logged_in and e = all_dirs and c = "cmd ''SIZE'' ''d''"
        and st = "\<lparr>IsDir = True, Size = 4096, ModTime = noon\<rparr>",
        THEN mp, THEN conjunct2, THEN conjunct1]
    by (simp add: logged_in_def new_session_def cmd_def calm_def all_dirs_def Path_def
        Stat_def Reply_def emit_def since_def)
  moreover have "reply_codes (since logged_in
        (snd (handle no_access (cmd ''MDTM'' ''f'') logged_in))) = [550]"
    using size_and_mdtm [where s = logged_in and e = no_access and c = "cmd ''MDTM'' ''f''"
        and err = "Permission ''permission denied''", THEN mp, THEN conjunct1]
    by (simp add: logged_in_def new_session_def cmd_def calm_def no_access_def Path_def)
  ultimately show ?thesis by simp
qed

theorem mdtm_on_directory:
  "authed logged_in
   \<and> Stat_ret all_dirs ''/d'' = Inr \<lparr>IsDir = True, Size = 4096, ModTime = noon\<rparr>
   \<and> since logged_in (snd (handle all_dirs (cmd ''MDTM'' ''d'') logged_in))
       = [EvStat ''/d'', EvReply 550 ''Could not get size.'']"
  by (simp add: logged_in_def new_session_def cmd_def calm_def all_dirs_def handle_def
      handlePostAuth_def handle_MDTM_def Path_def Stat_def err_of_def Reply_def emit_def
      since_def)

section \<open>The restart offset is never negative\<close>

lemma rest_in_range:
  assumes "0 \<le> restart s" "restart s < 2 ^ 63"
  shows "0 \<le> restart (snd (handle_REST e c s)) \<and> restart (snd (handle_REST e c s)) < 2 ^ 63"
proof (cases "ParseInt (Msg c)")
  case None
  with assms show ?thesis by (simp add: handle_REST_def Reply_def emit_def)
next
  case (Some n)
  with assms ParseInt_range [OF Some] show ?thesis
    by (simp add: handle_REST_def Reply_def emit_def)
qed

lemma handle_in_range:
  assumes "0 \<le> restart s" "restart s < 2 ^ 63"
  shows "0 \<le> restart (snd (handle e c s)) \<and> restart (snd (handle e c s)) < 2 ^ 63"
proof (cases "Cmd c = ''REST''")
  case False
  with assms show ?thesis by (simp add: handle_restart)
next
  case True
  show ?thesis
  proof (cases "authed s")
    case False
    with assms show ?thesis by (simp add: handle_def handlePreAuth_fields)
  next
    case a: True
    with True have "handle e c s = handle_REST e c s"
      by (simp add: handle_def handlePostAuth_def)
    with rest_in_range [OF assms] show ?thesis by simp
  qed
qed

lemma reset_in_range:
  assumes "0 \<le> restart s" "restart s < 2 ^ 63"
  shows "0 \<le> restart (reset_transient c s) \<and> restart (reset_transient c s) < 2 ^ 63"
  using assms by simp

lemma run_in_range:
  assumes "run xs s = Some s'" "0 \<le> restart s" "restart s < 2 ^ 63"
  shows "0 \<le> restart s' \<and> restart s' < 2 ^ 63"
  using assms
proof (induction xs arbitrary: s)
  case Nil
  then show ?case by simp
next
  case (Cons x xs)
  obtain e c where x: "x = (e, c)" by (cases x)
  obtain r s1 where h: "handle e c s = (r, s1)" by (cases "handle e c s")
  from handle_in_range [OF Cons.prems(2,3), of e c] h
  have "0 \<le> restart s1" "restart s1 < 2 ^ 63" by simp_all
  then have i: "0 \<le> restart (reset_transient c s1)" "restart (reset_transient c s1) < 2 ^ 63"
    by simp_all
  from Cons.prems(1) x h have "run xs (reset_transient c s1) = Some s'"
    by (auto split: option.splits if_splits)
  from Cons.IH [OF this i] show ?case .
qed

lemma Handle_in_range:
  assumes "0 \<le> restart s" "restart s < 2 ^ 63"
  shows "0 \<le> restart (snd (Handle rd xs s)) \<and> restart (snd (Handle rd xs s)) < 2 ^ 63"
  using assms
proof (induction xs arbitrary: s)
  case Nil
  then show ?case by simp
next
  case (Cons x xs)
  obtain e c where x: "x = (e, c)" by (cases x)
  obtain r s1 where h: "handle e c s = (r, s1)" by (cases "handle e c s")
  from handle_in_range [OF Cons.prems, of e c] h
  have s1: "0 \<le> restart s1" "restart s1 < 2 ^ 63" by simp_all
  then have i: "0 \<le> restart (reset_transient c s1)" "restart (reset_transient c s1) < 2 ^ 63"
    by simp_all
  from Cons.IH [OF i] s1 x h show ?case by (auto split: option.splits)
qed

text \<open>
  C10. The restart offset of a new session is zero. In every state the loop of
  \<^verbatim>\<open>Handle\<close> reaches from a new session, whatever the commands and whatever the
  collaborators answer, the offset is at least zero and fits an \<^verbatim>\<open>int64\<close>: at the
  head of the loop, after the handler of any further command has run, and in the state
  the session ends in. A command other than REST never changes the offset in its
  handler, an accepted REST stores the number it parsed, which is not negative, and at
  the head of the loop after a command other than REST the offset is zero.
\<close>

theorem restart_never_negative:
  "restart new_session = 0
   \<and> (run xs new_session = Some s \<longrightarrow>
        0 \<le> restart s \<and> restart s < 2 ^ 63
        \<and> 0 \<le> restart (snd (handle e c s)) \<and> restart (snd (handle e c s)) < 2 ^ 63
        \<and> (Cmd c \<noteq> ''REST'' \<longrightarrow> restart (snd (handle e c s)) = restart s)
        \<and> (Cmd c = ''REST'' \<and> restart (snd (handle e c s)) \<noteq> restart s \<longrightarrow>
             ParseInt (Msg c) = Some (restart (snd (handle e c s)))))
   \<and> 0 \<le> restart (snd (Handle rd xs new_session))
   \<and> (run (ys @ [(e1, c1)]) new_session = Some s2 \<and> Cmd c1 \<noteq> ''REST'' \<longrightarrow> restart s2 = 0)"
proof (intro conjI impI)
  show z: "restart new_session = 0" by (simp add: new_session_def)
  then have i: "0 \<le> restart new_session" "restart new_session < 2 ^ 63" by simp_all
  show "0 \<le> restart (snd (Handle rd xs new_session))"
    using Handle_in_range [OF i] by simp
  {
    assume r: "run xs new_session = Some s"
    from run_in_range [OF r i] show j: "0 \<le> restart s" and k: "restart s < 2 ^ 63"
      by simp_all
    from handle_in_range [OF j k] show "0 \<le> restart (snd (handle e c s))"
      and "restart (snd (handle e c s)) < 2 ^ 63"
      by simp_all
    {
      assume "Cmd c \<noteq> ''REST''"
      then show "restart (snd (handle e c s)) = restart s" by (rule handle_restart)
    }
    {
      assume a: "Cmd c = ''REST'' \<and> restart (snd (handle e c s)) \<noteq> restart s"
      show "ParseInt (Msg c) = Some (restart (snd (handle e c s)))"
      proof (cases "authed s")
        case False
        with a show ?thesis by (simp add: handle_def handlePreAuth_fields)
      next
        case True
        with a have "handle e c s = handle_REST e c s"
          by (simp add: handle_def handlePostAuth_def)
        with a show ?thesis
          by (auto simp: handle_REST_def Reply_def emit_def split: option.splits if_splits)
      qed
    }
  }
  {
    assume "run (ys @ [(e1, c1)]) new_session = Some s2 \<and> Cmd c1 \<noteq> ''REST''"
    then show "restart s2 = 0" using restart_cleared by blast
  }
qed

theorem restart_never_negative_witness:
  "run [(calm, cmd ''USER'' ''alice''), (calm, cmd ''PASS'' ''secret''),
        (calm, cmd ''REST'' ''42'')] new_session
     = Some (logged_in\<lparr>restart := 42,
          log := [EvReply 331 ''Please specify the password.'',
                  EvReply 230 ''Login successful.'',
                  EvReply 350 ''Restart position accepted (42).'']\<rparr>)
   \<and> 0 \<le> restart (snd (handle calm (cmd ''REST'' ''-7'')
        (logged_in\<lparr>restart := 42,
          log := [EvReply 331 ''Please specify the password.'',
                  EvReply 230 ''Login successful.'',
                  EvReply 350 ''Restart position accepted (42).'']\<rparr>)))
   \<and> 0 \<le> restart (snd (Handle EOF [(calm, cmd ''USER'' ''alice''),
        (calm, cmd ''PASS'' ''secret''), (calm, cmd ''REST'' ''42'')] new_session))"
proof -
  have p: "ParseInt ''42'' = Some 42"
    by (simp add: ParseInt_def Let_def is_digit_def decimal_val_def digit_val_def)
  have f: "FormatInt 42 = ''42''"
    by (simp add: FormatInt_def digits.simps digit_char_simps)
  have r: "run [(calm, cmd ''USER'' ''alice''), (calm, cmd ''PASS'' ''secret''),
        (calm, cmd ''REST'' ''42'')] new_session
     = Some (logged_in\<lparr>restart := 42,
          log := [EvReply 331 ''Please specify the password.'',
                  EvReply 230 ''Login successful.'',
                  EvReply 350 ''Restart position accepted (42).'']\<rparr>)"
    by (simp add: run_defs login_def handle_REST_def p f)
  from restart_never_negative [where xs = "[(calm, cmd ''USER'' ''alice''),
        (calm, cmd ''PASS'' ''secret''), (calm, cmd ''REST'' ''42'')]"
      and s = "logged_in\<lparr>restart := 42,
          log := [EvReply 331 ''Please specify the password.'',
                  EvReply 230 ''Login successful.'',
                  EvReply 350 ''Restart position accepted (42).'']\<rparr>"
      and e = calm and c = "cmd ''REST'' ''-7''" and rd = EOF] r
  show ?thesis by simp
qed

end
